theory Spec2Isabelle
  imports Main "HOL-Library.Word" "HOL-Library.Char_ord" "HOL-Library.List_Lexorder"
    "HOL-Library.Multiset"
begin

section \<open>Values shared by the chain module and the agent\<close>

text \<open>
  A Go byte slice and a Go string are both sequences of bytes, and the conversions
  \<^verbatim>\<open>string(b)\<close> and \<^verbatim>\<open>[]byte(s)\<close> keep the bytes. Both are modelled by
  \<^typ>\<open>string\<close>, a list of 8-bit characters. A nil slice and an empty slice are the
  same value here; the code under study only ever asks for their length.
\<close>

type_synonym bytes = string

text \<open>
  \<^verbatim>\<open>sdk.ValAddress\<close> and \<^verbatim>\<open>sdk.AccAddress\<close> are two named types over a byte slice.
  \<^verbatim>\<open>Empty()\<close> is true exactly for the slice of length zero, and the Go conversion
  \<^verbatim>\<open>sdk.AccAddress(v)\<close> keeps the bytes and changes the type.
\<close>

datatype ValAddress = ValAddress bytes

datatype AccAddress = AccAddress bytes

fun ValAddress_Empty :: "ValAddress \<Rightarrow> bool" where
  "ValAddress_Empty (ValAddress b) = (length b = 0)"

fun AccAddress_Empty :: "AccAddress \<Rightarrow> bool" where
  "AccAddress_Empty (AccAddress b) = (length b = 0)"

fun AccAddress_of_ValAddress :: "ValAddress \<Rightarrow> AccAddress" where
  "AccAddress_of_ValAddress (ValAddress b) = AccAddress b"

section \<open>x/duty/types/msgs.go\<close>

text \<open>
  \<^verbatim>\<open>sdkerrors.Wrap(sdkerrors.ErrInvalidAddress, description)\<close>: a registered error with
  a description. A Go \<^verbatim>\<open>error\<close> result is an option: \<open>None\<close> is \<^verbatim>\<open>nil\<close>.
\<close>

datatype sdk_error = ErrInvalidAddress

datatype msg_error = Wrap sdk_error string

text \<open>
  Modelled from the spec: the type \<^verbatim>\<open>Route\<close> of package \<^verbatim>\<open>types\<close>, which the
  messages embed and whose declaration is not among the sources. The spec gives it as
  an ordered pair of an origin and a destination chain id; the agent reads its fields
  \<^verbatim>\<open>Origin\<close> and \<^verbatim>\<open>Destination\<close> as strings.
\<close>

record Route =
  Origin :: string
  Destination :: string

record MsgRegisterSidecars =
  ValAddr :: ValAddress
  RelayerPubKey :: bytes
  ValidatorPubKey :: bytes

record MsgHeartbeat =
  ValAddr :: ValAddress
  OriginHeightsJSON :: string
  Sig :: bytes

record MsgReportMissed =
  Route :: Route
  MsgID :: "64 word"
  AssignedVal :: ValAddress
  OriginProof :: bytes
  DestNonInclusionProof :: bytes
  Signer :: AccAddress

record MsgReportInvalid =
  Route :: Route
  MsgID :: "64 word"
  AssignedVal :: ValAddress
  DestFailureProof :: bytes
  Signer :: AccAddress

definition NewMsgRegisterSidecars :: "ValAddress \<Rightarrow> bytes \<Rightarrow> bytes \<Rightarrow> MsgRegisterSidecars" where
  "NewMsgRegisterSidecars valAddr relayerPubKey validatorPubKey =
     \<lparr>MsgRegisterSidecars.ValAddr = valAddr,
      RelayerPubKey = relayerPubKey,
      ValidatorPubKey = validatorPubKey\<rparr>"

definition NewMsgHeartbeat :: "ValAddress \<Rightarrow> string \<Rightarrow> bytes \<Rightarrow> MsgHeartbeat" where
  "NewMsgHeartbeat valAddr originHeightsJSON sig =
     \<lparr>MsgHeartbeat.ValAddr = valAddr,
      OriginHeightsJSON = originHeightsJSON,
      Sig = sig\<rparr>"

definition NewMsgReportMissed ::
  "Route \<Rightarrow> 64 word \<Rightarrow> ValAddress \<Rightarrow> bytes \<Rightarrow> bytes \<Rightarrow> AccAddress \<Rightarrow> MsgReportMissed" where
  "NewMsgReportMissed route msgID assignedVal originProof destNonInclusionProof signer =
     \<lparr>MsgReportMissed.Route = route,
      MsgReportMissed.MsgID = msgID,
      MsgReportMissed.AssignedVal = assignedVal,
      OriginProof = originProof,
      DestNonInclusionProof = destNonInclusionProof,
      MsgReportMissed.Signer = signer\<rparr>"

definition NewMsgReportInvalid ::
  "Route \<Rightarrow> 64 word \<Rightarrow> ValAddress \<Rightarrow> bytes \<Rightarrow> AccAddress \<Rightarrow> MsgReportInvalid" where
  "NewMsgReportInvalid route msgID assignedVal destFailureProof signer =
     \<lparr>MsgReportInvalid.Route = route,
      MsgReportInvalid.MsgID = msgID,
      MsgReportInvalid.AssignedVal = assignedVal,
      DestFailureProof = destFailureProof,
      MsgReportInvalid.Signer = signer\<rparr>"

subsection \<open>ValidateBasic\<close>

definition MsgRegisterSidecars_ValidateBasic :: "MsgRegisterSidecars \<Rightarrow> msg_error option" where
  "MsgRegisterSidecars_ValidateBasic msg =
     (if ValAddress_Empty (MsgRegisterSidecars.ValAddr msg)
      then Some (Wrap ErrInvalidAddress ''validator address cannot be empty'')
      else None)"

definition MsgHeartbeat_ValidateBasic :: "MsgHeartbeat \<Rightarrow> msg_error option" where
  "MsgHeartbeat_ValidateBasic msg =
     (if ValAddress_Empty (MsgHeartbeat.ValAddr msg)
      then Some (Wrap ErrInvalidAddress ''validator address cannot be empty'')
      else None)"

definition MsgReportMissed_ValidateBasic :: "MsgReportMissed \<Rightarrow> msg_error option" where
  "MsgReportMissed_ValidateBasic msg =
     (if ValAddress_Empty (MsgReportMissed.AssignedVal msg)
      then Some (Wrap ErrInvalidAddress ''assigned validator address cannot be empty'')
      else if AccAddress_Empty (MsgReportMissed.Signer msg)
      then Some (Wrap ErrInvalidAddress ''signer address cannot be empty'')
      else None)"

definition MsgReportInvalid_ValidateBasic :: "MsgReportInvalid \<Rightarrow> msg_error option" where
  "MsgReportInvalid_ValidateBasic msg =
     (if ValAddress_Empty (MsgReportInvalid.AssignedVal msg)
      then Some (Wrap ErrInvalidAddress ''assigned validator address cannot be empty'')
      else if AccAddress_Empty (MsgReportInvalid.Signer msg)
      then Some (Wrap ErrInvalidAddress ''signer address cannot be empty'')
      else None)"

subsection \<open>GetSigners\<close>

definition MsgRegisterSidecars_GetSigners :: "MsgRegisterSidecars \<Rightarrow> AccAddress list" where
  "MsgRegisterSidecars_GetSigners msg = [AccAddress_of_ValAddress (MsgRegisterSidecars.ValAddr msg)]"

definition MsgHeartbeat_GetSigners :: "MsgHeartbeat \<Rightarrow> AccAddress list" where
  "MsgHeartbeat_GetSigners msg = [AccAddress_of_ValAddress (MsgHeartbeat.ValAddr msg)]"

definition MsgReportMissed_GetSigners :: "MsgReportMissed \<Rightarrow> AccAddress list" where
  "MsgReportMissed_GetSigners msg = [MsgReportMissed.Signer msg]"

definition MsgReportInvalid_GetSigners :: "MsgReportInvalid \<Rightarrow> AccAddress list" where
  "MsgReportInvalid_GetSigners msg = [MsgReportInvalid.Signer msg]"

subsection \<open>The interface sdk.Msg\<close>

text \<open>
  The four message types are the implementations of \<^verbatim>\<open>sdk.Msg\<close> that the file
  declares; a value of the interface is one of them, and a method call dispatches on
  the type.
\<close>

datatype Msg =
    RegisterSidecars MsgRegisterSidecars
  | Heartbeat MsgHeartbeat
  | ReportMissed MsgReportMissed
  | ReportInvalid MsgReportInvalid

fun ValidateBasic :: "Msg \<Rightarrow> msg_error option" where
  "ValidateBasic (RegisterSidecars m) = MsgRegisterSidecars_ValidateBasic m"
| "ValidateBasic (Heartbeat m) = MsgHeartbeat_ValidateBasic m"
| "ValidateBasic (ReportMissed m) = MsgReportMissed_ValidateBasic m"
| "ValidateBasic (ReportInvalid m) = MsgReportInvalid_ValidateBasic m"

fun GetSigners :: "Msg \<Rightarrow> AccAddress list" where
  "GetSigners (RegisterSidecars m) = MsgRegisterSidecars_GetSigners m"
| "GetSigners (Heartbeat m) = MsgHeartbeat_GetSigners m"
| "GetSigners (ReportMissed m) = MsgReportMissed_GetSigners m"
| "GetSigners (ReportInvalid m) = MsgReportInvalid_GetSigners m"

text \<open>The address fields that \<^verbatim>\<open>ValidateBasic\<close> requires, as "is one of them empty".\<close>

fun required_address_empty :: "Msg \<Rightarrow> bool" where
  "required_address_empty (RegisterSidecars m) = ValAddress_Empty (MsgRegisterSidecars.ValAddr m)"
| "required_address_empty (Heartbeat m) = ValAddress_Empty (MsgHeartbeat.ValAddr m)"
| "required_address_empty (ReportMissed m) =
     (ValAddress_Empty (MsgReportMissed.AssignedVal m) \<or> AccAddress_Empty (MsgReportMissed.Signer m))"
| "required_address_empty (ReportInvalid m) =
     (ValAddress_Empty (MsgReportInvalid.AssignedVal m) \<or> AccAddress_Empty (MsgReportInvalid.Signer m))"

section \<open>The Duty Registry\<close>

text \<open>
  Modelled from the spec: the Duty Registry, that is the duty record with its status
  and the operations \<^verbatim>\<open>get\<close>, \<^verbatim>\<open>listByValidator\<close> and \<^verbatim>\<open>upsert\<close>. The sources hold
  only its callers (the agent's query for the duties of a validator, and the report
  messages against a duty); the registry itself is not among them. The spec's words:
  a duty has a route, a message id unique per route, an assigned validator, the
  heights of creation and deadline, and a status among Pending, Fulfilled, Missed and
  Invalid; \<^verbatim>\<open>get\<close> on an unknown key signals NotFound; \<^verbatim>\<open>upsert\<close> must reject any
  transition whose source status is already terminal, as a no-op; duties are never
  deleted. The registry is kept as the list of its duties in order of creation, with
  at most one duty per pair of route and message id.
\<close>

datatype DutyStatus = Pending | Fulfilled | Missed | Invalid

record Duty =
  route :: Route
  messageId :: "64 word"
  assignedValidator :: ValAddress
  createdHeight :: "64 word"
  deadlineHeight :: "64 word"
  status :: DutyStatus

type_synonym registry = "Duty list"

datatype registry_error = NotFound | TerminalTransition

definition duty_key :: "Duty \<Rightarrow> Route \<times> 64 word" where
  "duty_key d = (route d, messageId d)"

fun get :: "registry \<Rightarrow> Route \<Rightarrow> 64 word \<Rightarrow> registry_error + Duty" where
  "get [] r i = Inl NotFound"
| "get (d # ds) r i = (if duty_key d = (r, i) then Inr d else get ds r i)"

definition listByValidator :: "registry \<Rightarrow> ValAddress \<Rightarrow> Duty list" where
  "listByValidator reg v = filter (\<lambda>d. assignedValidator d = v) reg"

definition upsert :: "registry \<Rightarrow> Duty \<Rightarrow> registry_error + registry" where
  "upsert reg d =
     (case get reg (route d) (messageId d) of
        Inl _ \<Rightarrow> Inr (reg @ [d])
      | Inr old \<Rightarrow>
          if status old \<noteq> Pending then Inl TerminalTransition
          else Inr (map (\<lambda>e. if duty_key e = duty_key d then d else e) reg))"

text \<open>
  The operations on the registry. A read leaves it as it is; an \<^verbatim>\<open>upsert\<close> that is
  rejected leaves it as it is too.
\<close>

datatype registry_op = Get Route "64 word" | ListByValidator ValAddress | Upsert Duty

fun apply_op :: "registry \<Rightarrow> registry_op \<Rightarrow> registry" where
  "apply_op reg (Get r i) = reg"
| "apply_op reg (ListByValidator v) = reg"
| "apply_op reg (Upsert d) = (case upsert reg d of Inl _ \<Rightarrow> reg | Inr reg' \<Rightarrow> reg')"

fun apply_ops :: "registry \<Rightarrow> registry_op list \<Rightarrow> registry" where
  "apply_ops reg [] = reg"
| "apply_ops reg (x # xs) = apply_ops (apply_op reg x) xs"

definition status_of :: "registry \<Rightarrow> Route \<Rightarrow> 64 word \<Rightarrow> DutyStatus option" where
  "status_of reg r i = (case get reg r i of Inl _ \<Rightarrow> None | Inr d \<Rightarrow> Some (status d))"

section \<open>encoding/json, as far as the program uses it\<close>

text \<open>
  The Go library writes a JSON string between double quotes. Of the bytes below 128
  it escapes the quote and the backslash with a backslash, writes line feed, carriage
  return and tab as \<^verbatim>\<open>\n\<close>, \<^verbatim>\<open>\r\<close> and \<^verbatim>\<open>\t\<close>, and writes the other control bytes
  and the characters \<^verbatim>\<open><\<close>, \<^verbatim>\<open>>\<close> and \<^verbatim>\<open>&\<close> as \<^verbatim>\<open>\u00XX\<close> (Go releases from 1.22 on
  shorten two more control bytes, backspace and form feed). Bytes from 128 on are
  copied: the strings here are taken to be valid UTF-8 without the line and paragraph
  separators, which is what the library copies unchanged.
\<close>

definition hex_digit :: "nat \<Rightarrow> char" where
  "hex_digit n = ''0123456789abcdef'' ! (n mod 16)"

definition escape_byte :: "char \<Rightarrow> string" where
  "escape_byte c =
     (let b = (of_char c :: nat) in
      if c = CHR 0x22 \<or> c = CHR 0x5C then [CHR 0x5C, c]
      else if c = CHR 0x0A then [CHR 0x5C, CHR ''n'']
      else if c = CHR 0x0D then [CHR 0x5C, CHR ''r'']
      else if c = CHR 0x09 then [CHR 0x5C, CHR ''t'']
      else if b < 32 \<or> c = CHR ''<'' \<or> c = CHR ''>'' \<or> c = CHR ''&''
      then [CHR 0x5C, CHR ''u'', CHR ''0'', CHR ''0'', hex_digit (b div 16), hex_digit (b mod 16)]
      else [c])"

definition json_string :: "string \<Rightarrow> string" where
  "json_string s = [CHR 0x22] @ concat (map escape_byte s) @ [CHR 0x22]"

text \<open>An unsigned integer in decimal, as \<^verbatim>\<open>strconv\<close> writes it.\<close>

fun digits :: "nat \<Rightarrow> string" where
  "digits n =
     (if n < 10 then [''0123456789'' ! n]
      else digits (n div 10) @ [''0123456789'' ! (n mod 10)])"

declare digits.simps [simp del]

fun join :: "string \<Rightarrow> string list \<Rightarrow> string" where
  "join sep [] = []"
| "join sep [x] = x"
| "join sep (x # y # ys) = x @ sep @ join sep (y # ys)"

text \<open>
  A JSON document as its syntax tree. The members of an object are kept in the order
  of the text, and a number is kept as its literal.
\<close>

datatype json =
    JNull | JBool bool | JNumber string | JString string
  | JArray "json list" | JObject "(string \<times> json) list"

primrec render :: "json \<Rightarrow> string" where
  "render JNull = ''null''"
| "render (JBool b) = (if b then ''true'' else ''false'')"
| "render (JNumber n) = n"
| "render (JString s) = json_string s"
| "render (JArray xs) = ''['' @ join '','' (map render xs) @ '']''"
| "render (JObject kvs) =
     ''{'' @ join '','' (map (\<lambda>(k, v). json_string k @ '':'' @ v) (map (map_prod id render) kvs))
       @ ''}''"

text \<open>
  An error of the agent and of the libraries it calls: a message, or
  \<^verbatim>\<open>fmt.Errorf(format, err)\<close> with the verb \<^verbatim>\<open>%w\<close>, which wraps \<^verbatim>\<open>err\<close>.
\<close>

datatype error = Err string | Errorf string error

text \<open>
  \<^verbatim>\<open>json.Marshal\<close> of a \<^verbatim>\<open>map[string]uint64\<close>. A Go map has no order of its own; it is
  given here as the list of its entries in the order an iteration happens to visit
  them, the keys distinct. The library sorts the entries by key (bytewise) and writes
  one object; for this type of map it returns no error. The map is one that has been
  made, as the literal of the program is: the nil map, for which the library writes
  \<^verbatim>\<open>null\<close>, is not among the values here.
\<close>

definition json_Marshal :: "(string \<times> 64 word) list \<Rightarrow> error + string" where
  "json_Marshal m =
     Inr (render (JObject (map (\<lambda>(k, v). (k, JNumber (digits (unat v)))) (sort_key fst m))))"

text \<open>
  \<^verbatim>\<open>sdk.MustSortJSON\<close> decodes its argument into an untyped value and encodes that
  value again. Decoding an object gives a map, so of two members with one name the
  later stays; encoding a map writes its members sorted by name. A number is decoded
  into a float and written back from the float: floating point is outside this
  development, and the function \<open>num\<close> from a number's literal to the literal written
  back is a parameter. The argument is given by its syntax tree, so it is well-formed
  JSON and the panic of \<^verbatim>\<open>MustSortJSON\<close> on malformed text does not arise.
\<close>

fun last_wins :: "(string \<times> 'a) list \<Rightarrow> (string \<times> 'a) list" where
  "last_wins [] = []"
| "last_wins ((k, v) # kvs) =
     (if k \<in> fst ` set kvs then last_wins kvs else (k, v) # last_wins kvs)"

primrec sortJSON :: "(string \<Rightarrow> string) \<Rightarrow> json \<Rightarrow> json" where
  "sortJSON num JNull = JNull"
| "sortJSON num (JBool b) = JBool b"
| "sortJSON num (JNumber n) = JNumber (num n)"
| "sortJSON num (JString s) = JString s"
| "sortJSON num (JArray xs) = JArray (map (sortJSON num) xs)"
| "sortJSON num (JObject kvs) =
     JObject (sort_key fst (last_wins (map (map_prod id (sortJSON num)) kvs)))"

definition MustSortJSON :: "(string \<Rightarrow> string) \<Rightarrow> json \<Rightarrow> bytes" where
  "MustSortJSON num toSortJSON = render (sortJSON num toSortJSON)"

text \<open>
  \<^verbatim>\<open>ModuleCdc\<close> is declared outside the sources and is a parameter: the JSON document
  the codec writes for a message, or \<open>None\<close> when it returns an error, on which
  \<^verbatim>\<open>MustMarshalJSON\<close> panics. A panic of \<^verbatim>\<open>GetSignBytes\<close> is the result \<open>None\<close>.
\<close>

type_synonym codec = "Msg \<Rightarrow> json option"

definition MsgRegisterSidecars_GetSignBytes ::
  "codec \<Rightarrow> (string \<Rightarrow> string) \<Rightarrow> MsgRegisterSidecars \<Rightarrow> bytes option" where
  "MsgRegisterSidecars_GetSignBytes ModuleCdc num msg =
     map_option (MustSortJSON num) (ModuleCdc (RegisterSidecars msg))"

definition MsgHeartbeat_GetSignBytes ::
  "codec \<Rightarrow> (string \<Rightarrow> string) \<Rightarrow> MsgHeartbeat \<Rightarrow> bytes option" where
  "MsgHeartbeat_GetSignBytes ModuleCdc num msg =
     map_option (MustSortJSON num) (ModuleCdc (Heartbeat msg))"

definition MsgReportMissed_GetSignBytes ::
  "codec \<Rightarrow> (string \<Rightarrow> string) \<Rightarrow> MsgReportMissed \<Rightarrow> bytes option" where
  "MsgReportMissed_GetSignBytes ModuleCdc num msg =
     map_option (MustSortJSON num) (ModuleCdc (ReportMissed msg))"

definition MsgReportInvalid_GetSignBytes ::
  "codec \<Rightarrow> (string \<Rightarrow> string) \<Rightarrow> MsgReportInvalid \<Rightarrow> bytes option" where
  "MsgReportInvalid_GetSignBytes ModuleCdc num msg =
     map_option (MustSortJSON num) (ModuleCdc (ReportInvalid msg))"

fun GetSignBytes :: "codec \<Rightarrow> (string \<Rightarrow> string) \<Rightarrow> Msg \<Rightarrow> bytes option" where
  "GetSignBytes cdc num (RegisterSidecars m) = MsgRegisterSidecars_GetSignBytes cdc num m"
| "GetSignBytes cdc num (Heartbeat m) = MsgHeartbeat_GetSignBytes cdc num m"
| "GetSignBytes cdc num (ReportMissed m) = MsgReportMissed_GetSignBytes cdc num m"
| "GetSignBytes cdc num (ReportInvalid m) = MsgReportInvalid_GetSignBytes cdc num m"

text \<open>
  Two ways to look at a document: every object in it has members with distinct names
  (\<open>distinct_keys\<close>), and every object in it has its members in strictly rising order
  of name (\<open>keys_sorted\<close>). \<open>reorder p\<close> rewrites every object of a document with
  its members in the order \<open>p\<close> gives them.
\<close>

primrec distinct_keys :: "json \<Rightarrow> bool" where
  "distinct_keys JNull = True"
| "distinct_keys (JBool b) = True"
| "distinct_keys (JNumber n) = True"
| "distinct_keys (JString s) = True"
| "distinct_keys (JArray xs) = list_all id (map distinct_keys xs)"
| "distinct_keys (JObject kvs) =
     (distinct (map fst kvs) \<and> list_all snd (map (map_prod id distinct_keys) kvs))"

primrec keys_sorted :: "json \<Rightarrow> bool" where
  "keys_sorted JNull = True"
| "keys_sorted (JBool b) = True"
| "keys_sorted (JNumber n) = True"
| "keys_sorted (JString s) = True"
| "keys_sorted (JArray xs) = list_all id (map keys_sorted xs)"
| "keys_sorted (JObject kvs) =
     (sorted (map fst kvs) \<and> distinct (map fst kvs)
      \<and> list_all snd (map (map_prod id keys_sorted) kvs))"

primrec reorder :: "((string \<times> json) list \<Rightarrow> (string \<times> json) list) \<Rightarrow> json \<Rightarrow> json" where
  "reorder p JNull = JNull"
| "reorder p (JBool b) = JBool b"
| "reorder p (JNumber n) = JNumber n"
| "reorder p (JString s) = JString s"
| "reorder p (JArray xs) = JArray (map (reorder p) xs)"
| "reorder p (JObject kvs) = JObject (p (map (map_prod id (reorder p)) kvs))"

section \<open>time.ParseDuration\<close>

text \<open>
  The Go library's parser of a duration: an optional sign, then one or more groups of
  a decimal number, with an optional fraction, and a unit; the text \<^verbatim>\<open>0\<close> alone is
  zero. A duration is a signed count of nanoseconds in 64 bits. The library adds the
  groups in unsigned 64-bit arithmetic behind the overflow checks written out below.
  The contribution of a fraction is computed by the library in floating point; here it
  is the exact quotient rounded down.
\<close>

type_synonym Duration = int

definition Second :: Duration where
  "Second = 1000000000"

definition is_digit :: "char \<Rightarrow> bool" where
  "is_digit c = (CHR ''0'' \<le> c \<and> c \<le> CHR ''9'')"

definition digit_value :: "char \<Rightarrow> nat" where
  "digit_value c = of_char c - 48"

definition time_quote :: "string \<Rightarrow> string" where
  "time_quote s =
     [CHR 0x22]
     @ concat (map (\<lambda>c. let b = (of_char c :: nat) in
                 if b \<ge> 128 \<or> b < 32
                 then [CHR 0x5C, CHR ''x'', hex_digit (b div 16), hex_digit (b mod 16)]
                 else if c = CHR 0x22 \<or> c = CHR 0x5C then [CHR 0x5C, c]
                 else [c]) s)
     @ [CHR 0x22]"

definition invalid_duration :: "string \<Rightarrow> error" where
  "invalid_duration orig = Err (''time: invalid duration '' @ time_quote orig)"

fun leadingInt :: "nat \<Rightarrow> string \<Rightarrow> (nat \<times> string) option" where
  "leadingInt x [] = Some (x, [])"
| "leadingInt x (c # s) =
     (if \<not> is_digit c then Some (x, c # s)
      else if x > 2 ^ 63 div 10 then None
      else let x' = x * 10 + digit_value c in
        if x' > 2 ^ 63 then None else leadingInt x' s)"

fun leadingFraction :: "nat \<Rightarrow> nat \<Rightarrow> bool \<Rightarrow> string \<Rightarrow> nat \<times> nat \<times> string" where
  "leadingFraction x scale overflow [] = (x, scale, [])"
| "leadingFraction x scale overflow (c # s) =
     (if \<not> is_digit c then (x, scale, c # s)
      else if overflow then leadingFraction x scale overflow s
      else if x > (2 ^ 63 - 1) div 10 then leadingFraction x scale True s
      else let y = x * 10 + digit_value c in
        if y > 2 ^ 63 then leadingFraction x scale True s
        else leadingFraction y (scale * 10) False s)"

definition unitMap :: "string \<Rightarrow> nat option" where
  "unitMap =
     map_of [(''ns'', 1), (''us'', 1000),
             ([CHR 0xC2, CHR 0xB5, CHR ''s''], 1000), ([CHR 0xCE, CHR 0xBC, CHR ''s''], 1000),
             (''ms'', 1000000), (''s'', 1000000000), (''m'', 60000000000),
             (''h'', 3600000000000)]"

definition in_number :: "char \<Rightarrow> bool" where
  "in_number c = (c = CHR ''.'' \<or> is_digit c)"

text \<open>One group: the number, its fraction and its unit; the value in nanoseconds and the rest.\<close>

definition parse_fraction :: "string \<Rightarrow> nat \<times> nat \<times> string \<times> bool" where
  "parse_fraction s1 =
     (case s1 of
        [] \<Rightarrow> (0, 1, s1, False)
      | c # r \<Rightarrow>
          (if c = CHR ''.''
           then (case leadingFraction 0 1 False r of
                   (f, scale, s2) \<Rightarrow> (f, scale, s2, length s2 \<noteq> length r))
           else (0, 1, s1, False)))"

definition parse_unit :: "string \<Rightarrow> nat \<Rightarrow> nat \<Rightarrow> nat \<Rightarrow> string \<Rightarrow> error + nat \<times> string" where
  "parse_unit orig v f scale s2 =
     (let u = takeWhile (\<lambda>c. \<not> in_number c) s2;
          s3 = dropWhile (\<lambda>c. \<not> in_number c) s2
      in if u = [] then Inl (Err (''time: missing unit in duration '' @ time_quote orig))
         else (case unitMap u of
                 None \<Rightarrow>
                   Inl (Err (''time: unknown unit '' @ time_quote u @ '' in duration ''
                             @ time_quote orig))
               | Some unit \<Rightarrow>
                   (if v > 2 ^ 63 div unit then Inl (invalid_duration orig)
                    else if f > 0
                    then (let v2 = v * unit + (f * unit) div scale in
                          if v2 > 2 ^ 63 then Inl (invalid_duration orig) else Inr (v2, s3))
                    else Inr (v * unit, s3))))"

definition parse_group :: "string \<Rightarrow> string \<Rightarrow> error + nat \<times> string" where
  "parse_group orig s =
     (if \<not> (case s of [] \<Rightarrow> False | c # _ \<Rightarrow> in_number c) then Inl (invalid_duration orig)
      else (case leadingInt 0 s of
              None \<Rightarrow> Inl (invalid_duration orig)
            | Some (v, s1) \<Rightarrow>
                (case parse_fraction s1 of
                   (f, scale, s2, post) \<Rightarrow>
                     (if length s1 = length s \<and> \<not> post then Inl (invalid_duration orig)
                      else parse_unit orig v f scale s2))))"

lemma leadingInt_length: "leadingInt x s = Some (v, r) \<Longrightarrow> length r \<le> length s"
  by (induction x s rule: leadingInt.induct) (auto simp: Let_def split: if_splits)

lemma leadingFraction_length: "leadingFraction x sc ov s = (f, sc', r) \<Longrightarrow> length r \<le> length s"
  by (induction x sc ov s rule: leadingFraction.induct) (auto simp: Let_def split: if_splits)

lemma dropWhile_shorter: "takeWhile P s \<noteq> [] \<Longrightarrow> length (dropWhile P s) < length s"
  by (cases s) (auto simp: le_imp_less_Suc length_dropWhile_le split: if_splits)

lemma parse_fraction_length: "parse_fraction s1 = (f, scale, s2, post) \<Longrightarrow> length s2 \<le> length s1"
  by (auto simp: parse_fraction_def split: list.splits if_splits prod.splits
      dest: leadingFraction_length)

lemma parse_unit_shorter: "parse_unit orig v f scale s2 = Inr (w, r) \<Longrightarrow> length r < length s2"
  by (auto simp: parse_unit_def Let_def dropWhile_shorter split: if_splits option.splits)

lemma parse_group_shorter:
  assumes "parse_group orig s = Inr (v, r)"
  shows "length r < length s"
proof -
  from assms obtain v0 s1 f scale s2 post where
    li: "leadingInt 0 s = Some (v0, s1)" and fr: "parse_fraction s1 = (f, scale, s2, post)"
    and pu: "parse_unit orig v0 f scale s2 = Inr (v, r)"
    by (auto simp: parse_group_def split: if_splits option.splits prod.splits)
  from li have "length s1 \<le> length s" by (rule leadingInt_length)
  moreover from fr have "length s2 \<le> length s1" by (rule parse_fraction_length)
  moreover from pu have "length r < length s2" by (rule parse_unit_shorter)
  ultimately show ?thesis by simp
qed

function parse_groups :: "string \<Rightarrow> nat \<Rightarrow> string \<Rightarrow> error + nat" where
  "parse_groups orig d s =
     (if s = [] then Inr d
      else case parse_group orig s of
        Inl e \<Rightarrow> Inl e
      | Inr (v, r) \<Rightarrow>
          let d' = (d + v) mod 2 ^ 64 in
          if d' > 2 ^ 63 then Inl (invalid_duration orig) else parse_groups orig d' r)"
  by pat_completeness auto
termination
  by (relation "measure (\<lambda>(orig, d, s). length s)") (auto dest: parse_group_shorter)

declare parse_groups.simps [simp del]

definition ParseDuration :: "string \<Rightarrow> error + Duration" where
  "ParseDuration orig =
     (let (neg, s) =
        (case orig of
           [] \<Rightarrow> (False, orig)
         | c # r \<Rightarrow> if c = CHR ''-'' \<or> c = CHR ''+'' then (c = CHR ''-'', r) else (False, orig))
      in if s = ''0'' then Inr 0
         else if s = [] then Inl (invalid_duration orig)
         else case parse_groups orig 0 s of
           Inl e \<Rightarrow> Inl e
         | Inr d \<Rightarrow>
             if neg then Inr (- int d)
             else if d > 2 ^ 63 - 1 then Inl (invalid_duration orig)
             else Inr (int d))"

section \<open>agents/duty-agent/main.go\<close>

text \<open>
  What the agent does to the world outside it, in the order it does it: a line of the
  log (the format and its arguments, as passed to \<^verbatim>\<open>log.Printf\<close> or \<^verbatim>\<open>log.Println\<close>), a
  line on standard output, the reading of a file, a signature asked of the keyring
  (key name and payload), a heartbeat message made by \<^verbatim>\<open>NewMsgHeartbeat\<close>, a connection
  opened to an RPC node, and a transaction broadcast.
\<close>

datatype arg = S string | D Duration | E error

datatype event =
    Log string "arg list"
  | Stdout string
  | FileRead string
  | KeyringSigned string bytes
  | MsgBuilt MsgHeartbeat
  | RpcDial string
  | TxBroadcast bytes

fun is_network :: "event \<Rightarrow> bool" where
  "is_network (RpcDial addr) = True"
| "is_network (TxBroadcast tx) = True"
| "is_network e = False"

record Config =
  SovereignRPC :: string
  SovereignGRPC :: string
  SovereignChainID :: string
  ValAddr :: string
  RelayerKeyPath :: string
  RelayerBin :: string
  HeartbeatPeriod :: Duration

text \<open>
  \<^verbatim>\<open>os.Getenv\<close> is the function \<open>getenv\<close>; it gives the empty string for a variable
  that is not set. The first component of the result is the configuration, the second
  what was logged.
\<close>

definition readEnvConfig :: "(string \<Rightarrow> string) \<Rightarrow> Config \<times> event list" where
  "readEnvConfig getenv =
     (let periodStr = getenv ''HEARTBEAT_PERIOD'';
          (period, logged) =
            (case ParseDuration periodStr of
               Inl err \<Rightarrow>
                 (30 * Second,
                  [Log ''Invalid HEARTBEAT_PERIOD '%s', defaulting to 30s. Error: %v''
                     [S periodStr, E err]])
             | Inr period \<Rightarrow> (period, []))
      in (\<lparr>SovereignRPC = getenv ''SOVEREIGN_RPC'',
           SovereignGRPC = getenv ''SOVEREIGN_GRPC'',
           SovereignChainID = getenv ''SOVEREIGN_CHAIN_ID'',
           Config.ValAddr = getenv ''VAL_ADDR'',
           RelayerKeyPath = getenv ''RELAYER_KEY_PATH'',
           RelayerBin = getenv ''RELAYER_BIN'',
           HeartbeatPeriod = period\<rparr>, logged))"

definition validateConfig :: "Config \<Rightarrow> error option" where
  "validateConfig c =
     (if SovereignRPC c = [] then Some (Err ''SOVEREIGN_RPC must be set'')
      else if SovereignGRPC c = [] then Some (Err ''SOVEREIGN_GRPC must be set'')
      else if SovereignChainID c = [] then Some (Err ''SOVEREIGN_CHAIN_ID must be set'')
      else if Config.ValAddr c = [] then Some (Err ''VAL_ADDR must be set'')
      else if RelayerKeyPath c = [] then Some (Err ''RELAYER_KEY_PATH must be set'')
      else if RelayerBin c = [] then Some (Err ''RELAYER_BIN must be set'')
      else None)"

text \<open>
  The values of the SDK that \<^verbatim>\<open>sendHeartbeat\<close> passes along, as far as it sets them:
  the client context (chain id, address and name of the sender), the transaction
  factory (chain id, gas limit, fees) and the transaction under construction
  (messages, gas limit, fees, signatures). A set of command-line flags gives each flag
  its text.
\<close>

record ClientCtx =
  ChainID :: string
  FromAddress :: AccAddress
  FromName :: string

record Factory =
  chainID :: string
  gas :: nat
  fees :: string

record TxBuilder =
  msgs :: "MsgHeartbeat list"
  gasLimit :: nat
  feeAmount :: string
  signatures :: "bytes list"

type_synonym FlagSet = "string \<Rightarrow> string"

definition DefaultGasLimit :: nat where
  "DefaultGasLimit = 200000"

text \<open>
  The libraries and services that \<^verbatim>\<open>sendHeartbeat\<close> calls, as they answer during one
  tick: each call returns its value or an error. They are the in-memory keyring
  (\<^verbatim>\<open>keyring.New\<close>, \<^verbatim>\<open>ImportPrivKey\<close>, \<^verbatim>\<open>Key\<close>, \<^verbatim>\<open>Sign\<close>), the file system, the
  transaction package (\<^verbatim>\<open>tx.NewFactoryCLI\<close> on a flag set that is there,
  \<^verbatim>\<open>tx.BuildUnsignedTx\<close>, and \<^verbatim>\<open>tx.Sign\<close>, which gives the signature it puts on the
  transaction), the two encoders of the transaction configuration, and the RPC node
  (\<^verbatim>\<open>client.NewClientFromNode\<close>, and \<^verbatim>\<open>BroadcastTx\<close>, which gives the transaction hash).
\<close>

record tick_world =
  keyring_New :: "error option"
  os_ReadFile :: "string \<Rightarrow> error + bytes"
  kr_ImportPrivKey :: "string \<Rightarrow> string \<Rightarrow> string \<Rightarrow> error option"
  kr_Key :: "string \<Rightarrow> error + AccAddress"
  kr_Sign :: "string \<Rightarrow> bytes \<Rightarrow> error + bytes"
  tx_NewFactoryCLI :: "ClientCtx \<Rightarrow> FlagSet \<Rightarrow> Factory"
  tx_BuildUnsignedTx :: "Factory \<Rightarrow> MsgHeartbeat \<Rightarrow> error option"
  tx_Sign :: "Factory \<Rightarrow> string \<Rightarrow> TxBuilder \<Rightarrow> error + bytes"
  TxJSONEncoder :: "TxBuilder \<Rightarrow> error + bytes"
  TxEncoder :: "TxBuilder \<Rightarrow> error + bytes"
  client_NewClientFromNode :: "string \<Rightarrow> error option"
  clientCtx_BroadcastTx :: "bytes \<Rightarrow> error + string"

text \<open>
  A Go function returns, here with an error or with nil, or it panics; a panic that
  nothing recovers ends the process. \<^verbatim>\<open>tx.NewFactoryCLI\<close> takes its flag set by pointer
  and reads the transaction flags through it: on the nil pointer the first read
  dereferences nil inside the flag library, and the call panics. A pointer is an
  option, \<open>None\<close> for nil.
\<close>

datatype outcome = Return "error option" | Panics string

definition nil_dereference :: string where
  "nil_dereference = ''runtime error: invalid memory address or nil pointer dereference''"

definition NewFactoryCLI :: "tick_world \<Rightarrow> ClientCtx \<Rightarrow> FlagSet option \<Rightarrow> string + Factory" where
  "NewFactoryCLI w clientCtx flagSet =
     (case flagSet of
        None \<Rightarrow> Inl nil_dereference
      | Some flags \<Rightarrow> Inr (tx_NewFactoryCLI w clientCtx flags))"

text \<open>The map of origin heights that \<^verbatim>\<open>sendHeartbeat\<close> writes down as a literal.\<close>

definition originHeights :: "(string \<times> 64 word) list" where
  "originHeights = [(''light-1'', 123), (''other-2'', 456)]"

text \<open>
  The last part of \<^verbatim>\<open>sendHeartbeat\<close>, from the dry-run test on: \<open>t\<close> is what has been
  done so far, \<open>txb\<close> the signed transaction and \<open>txJSON\<close> its JSON encoding.
\<close>

definition broadcast ::
  "tick_world \<Rightarrow> Config \<Rightarrow> bool \<Rightarrow> event list \<Rightarrow> TxBuilder \<Rightarrow> bytes \<Rightarrow> outcome \<times> event list" where
  "broadcast w config dryRun t txb txJSON =
     (if dryRun
      then (Return None, t @ [Log ''Dry run enabled. Transaction JSON:'' [], Stdout txJSON])
      else
        (let t1 = t @ [RpcDial (SovereignRPC config)] in
         case client_NewClientFromNode w (SovereignRPC config) of
           Some err \<Rightarrow> (Return (Some (Errorf ''failed to create RPC client: %w'' err)), t1)
         | None \<Rightarrow>
             (case TxEncoder w txb of
                Inl err \<Rightarrow> (Return (Some (Errorf ''failed to encode tx to bytes: %w'' err)), t1)
              | Inr txBytes \<Rightarrow>
                  (let t2 = t1 @ [TxBroadcast txBytes] in
                   case clientCtx_BroadcastTx w txBytes of
                     Inl err \<Rightarrow> (Return (Some (Errorf ''broadcast failed: %w'' err)), t2)
                   | Inr txHash \<Rightarrow>
                       (Return None,
                        t2 @ [Log ''Heartbeat sent successfully! TxHash: %s'' [S txHash]])))))"

text \<open>
  The part of \<^verbatim>\<open>sendHeartbeat\<close> after the factory: building, signing and encoding the
  transaction for the message.
\<close>

definition build_and_sign ::
  "tick_world \<Rightarrow> Config \<Rightarrow> bool \<Rightarrow> event list \<Rightarrow> Factory \<Rightarrow> MsgHeartbeat \<Rightarrow> outcome \<times> event list" where
  "build_and_sign w config dryRun t txf msg =
     (case tx_BuildUnsignedTx w txf msg of
        Some err \<Rightarrow> (Return (Some (Errorf ''failed to build unsigned tx: %w'' err)), t)
      | None \<Rightarrow>
          (let txb = \<lparr>msgs = [msg], gasLimit = gas txf, feeAmount = fees txf, signatures = []\<rparr> in
           case tx_Sign w txf ''relayer'' txb of
             Inl err \<Rightarrow> (Return (Some (Errorf ''failed to sign tx: %w'' err)), t)
           | Inr txsig \<Rightarrow>
               (let txb' = txb\<lparr>signatures := [txsig]\<rparr> in
                case TxJSONEncoder w txb' of
                  Inl err \<Rightarrow> (Return (Some (Errorf ''failed to encode tx to JSON: %w'' err)), t)
                | Inr txJSON \<Rightarrow> broadcast w config dryRun t txb' txJSON)))"

text \<open>
  \<^verbatim>\<open>sendHeartbeat\<close> from its start to the factory. The factory is asked for with the nil
  flag set, as the source writes it.
\<close>

definition sendHeartbeat ::
  "tick_world \<Rightarrow> Config \<Rightarrow> ValAddress \<Rightarrow> bool \<Rightarrow> outcome \<times> event list" where
  "sendHeartbeat w config valAddr dryRun =
     (let t0 = [Log ''Building heartbeat transaction...'' []] in
      case json_Marshal originHeights of
        Inl err \<Rightarrow> (Return (Some (Errorf ''failed to marshal origin heights: %w'' err)), t0)
      | Inr originHeightsJSON \<Rightarrow>
          (case keyring_New w of
             Some err \<Rightarrow> (Return (Some (Errorf ''failed to create keyring: %w'' err)), t0)
           | None \<Rightarrow>
               (let t1 = t0 @ [FileRead (RelayerKeyPath config)] in
                case os_ReadFile w (RelayerKeyPath config) of
                  Inl err \<Rightarrow> (Return (Some (Errorf ''failed to read relayer key: %w'' err)), t1)
                | Inr keyBytes \<Rightarrow>
                    (case kr_ImportPrivKey w ''relayer'' keyBytes ''password'' of
                       Some err \<Rightarrow>
                         (Return (Some (Errorf ''failed to import private key: %w'' err)), t1)
                     | None \<Rightarrow>
                         (case kr_Key w ''relayer'' of
                            Inl err \<Rightarrow>
                              (Return (Some (Errorf ''failed to get key from keyring: %w'' err)), t1)
                          | Inr relayerKey \<Rightarrow>
                              (let t2 = t1 @ [KeyringSigned ''relayer'' originHeightsJSON] in
                               case kr_Sign w ''relayer'' originHeightsJSON of
                                 Inl err \<Rightarrow>
                                   (Return (Some (Errorf ''failed to sign heartbeat data: %w'' err)),
                                    t2)
                               | Inr sig \<Rightarrow>
                                   (let msg = NewMsgHeartbeat valAddr originHeightsJSON sig;
                                        t3 = t2 @ [MsgBuilt msg];
                                        clientCtx = \<lparr>ChainID = SovereignChainID config,
                                                     FromAddress = relayerKey,
                                                     FromName = ''relayer''\<rparr>
                                    in case NewFactoryCLI w clientCtx None of
                                         Inl p \<Rightarrow> (Panics p, t3)
                                       | Inr txf \<Rightarrow>
                                           build_and_sign w config dryRun t3
                                             (txf\<lparr>gas := DefaultGasLimit, fees := ''200usov''\<rparr>)
                                             msg)))))))"

text \<open>
  The process: \<^verbatim>\<open>log.Fatalf\<close> writes its line and exits with status 1; a panic ends the
  process; otherwise it is running.
\<close>

datatype process = Exited int | Panicked string | Running

text \<open>
  The body of the loop of \<^verbatim>\<open>main\<close>, run once for each tick of the ticker. The query
  for assignments and the relay of each duty are comments in the source, so what is
  left is two lines of the log, the heartbeat, and one more line when the heartbeat
  returns an error. A panic of the heartbeat ends the process.
\<close>

definition tick :: "Config \<Rightarrow> ValAddress \<Rightarrow> bool \<Rightarrow> tick_world \<Rightarrow> process \<times> event list" where
  "tick config valAddr dryRun w =
     (let t0 = [Log ''Ticker event: checking for duties and sending heartbeat...'' [],
                Log ''Querying for duty assignments...'' []]
      in case sendHeartbeat w config valAddr dryRun of
           (out, t) \<Rightarrow>
             (case out of
                Return None \<Rightarrow> (Running, t0 @ t)
              | Return (Some err) \<Rightarrow>
                  (Running, t0 @ t @ [Log ''Error sending heartbeat: %v'' [E err]])
              | Panics p \<Rightarrow> (Panicked p, t0 @ t)))"

text \<open>
  The loop over the ticks delivered so far, each with the world as it is at that tick.
  The ticker's channel is never closed: after the ticks delivered, a process that is
  still running waits for the next one.
\<close>

fun agent_loop :: "Config \<Rightarrow> ValAddress \<Rightarrow> bool \<Rightarrow> tick_world list \<Rightarrow> process \<times> event list" where
  "agent_loop config valAddr dryRun [] = (Running, [])"
| "agent_loop config valAddr dryRun (w # ws) =
     (case tick config valAddr dryRun w of
        (st, t) \<Rightarrow>
          (if st = Running
           then (case agent_loop config valAddr dryRun ws of (st', t') \<Rightarrow> (st', t @ t'))
           else (st, t)))"

text \<open>
  \<^verbatim>\<open>main\<close>: the environment and the SDK's decoder of a validator address are those of
  the world the process starts in; \<open>dryRun\<close> is the flag as parsed.
  \<^verbatim>\<open>time.NewTicker\<close> panics on a period that is not positive.
\<close>

record world =
  Getenv :: "string \<Rightarrow> string"
  ValAddressFromBech32 :: "string \<Rightarrow> error + ValAddress"

definition main :: "world \<Rightarrow> bool \<Rightarrow> tick_world list \<Rightarrow> process \<times> event list" where
  "main w dryRun ticks =
     (case readEnvConfig (Getenv w) of
        (config, t0) \<Rightarrow>
          (case validateConfig config of
             Some err \<Rightarrow> (Exited 1, t0 @ [Log ''Configuration error: %v'' [E err]])
           | None \<Rightarrow>
               (case ValAddressFromBech32 w (Config.ValAddr config) of
                  Inl err \<Rightarrow> (Exited 1, t0 @ [Log ''Invalid validator address: %v'' [E err]])
                | Inr valAddr \<Rightarrow>
                    (let t1 = t0 @ [Log ''Starting duty agent for validator %s'' [S (Config.ValAddr config)],
                                    Log ''Heartbeat period: %s'' [D (HeartbeatPeriod config)]]
                     in if HeartbeatPeriod config \<le> 0
                        then (Panicked ''non-positive interval for NewTicker'', t1)
                        else (case agent_loop config valAddr dryRun ticks of
                                (st, t) \<Rightarrow> (st, t1 @ t))))))"

text \<open>The JSON text of the map of origin heights that the source writes down.\<close>

definition origin_heights_json :: string where
  "origin_heights_json =
     ''{'' @ [CHR 0x22] @ ''light-1'' @ [CHR 0x22] @ '':123,'' @ [CHR 0x22] @ ''other-2''
       @ [CHR 0x22] @ '':456}''"

text \<open>
  Whether the keyring, the key file and the signature all answer without error in a
  tick, which is what lets \<^verbatim>\<open>sendHeartbeat\<close> reach the factory.
\<close>

definition keys_ready :: "tick_world \<Rightarrow> Config \<Rightarrow> bool" where
  "keys_ready w config =
     (case keyring_New w of
        Some err \<Rightarrow> False
      | None \<Rightarrow>
          (case os_ReadFile w (RelayerKeyPath config) of
             Inl err \<Rightarrow> False
           | Inr keyBytes \<Rightarrow>
               (case kr_ImportPrivKey w ''relayer'' keyBytes ''password'' of
                  Some err \<Rightarrow> False
                | None \<Rightarrow>
                    (case kr_Key w ''relayer'' of
                       Inl err \<Rightarrow> False
                     | Inr relayerKey \<Rightarrow>
                         (case kr_Sign w ''relayer'' origin_heights_json of
                            Inl err \<Rightarrow> False
                          | Inr sig \<Rightarrow> True)))))"

section \<open>Values for the examples\<close>

text \<open>
  A validator address in bech32 with the SDK's default prefix, and the twenty bytes
  it encodes.
\<close>

definition example_address :: string where
  "example_address = ''cosmosvaloper1qypqxpq9qcrsszg2pvxq6rs0zqg3yyc56kct20''"

definition example_valAddr :: ValAddress where
  "example_valAddr =
     ValAddress [CHR 0x01, CHR 0x02, CHR 0x03, CHR 0x04, CHR 0x05, CHR 0x06, CHR 0x07,
                 CHR 0x08, CHR 0x09, CHR 0x0A, CHR 0x0B, CHR 0x0C, CHR 0x0D, CHR 0x0E,
                 CHR 0x0F, CHR 0x10, CHR 0x11, CHR 0x12, CHR 0x13, CHR 0x14]"

text \<open>
  An environment with the six string settings (those of the README, with the address
  above for the validator) and no heartbeat period. The decoder of the example world
  answers as the SDK's does on the two texts the examples hand it: the address above
  decodes to its bytes, and the README's placeholder \<^verbatim>\<open>cosmosvaloper1...\<close> is not bech32.
  It refuses every other text.
\<close>

definition example_env :: "string \<Rightarrow> string" where
  "example_env name =
     (case map_of [(''SOVEREIGN_RPC'', ''tcp://localhost:26657''),
                   (''SOVEREIGN_GRPC'', ''localhost:9090''),
                   (''SOVEREIGN_CHAIN_ID'', ''sovereign-1''),
                   (''VAL_ADDR'', example_address),
                   (''RELAYER_KEY_PATH'', ''./relayer_key.pem''),
                   (''RELAYER_BIN'', ''/usr/local/bin/relayer'')] name of
        None \<Rightarrow> []
      | Some v \<Rightarrow> v)"

definition example_world :: world where
  "example_world =
     \<lparr>Getenv = example_env,
      ValAddressFromBech32 =
        (\<lambda>s. if s = example_address then Inr example_valAddr
             else Inl (Err ''decoding bech32 failed''))\<rparr>"

definition example_config :: Config where
  "example_config =
     \<lparr>SovereignRPC = ''tcp://localhost:26657'', SovereignGRPC = ''localhost:9090'',
      SovereignChainID = ''sovereign-1'', Config.ValAddr = example_address,
      RelayerKeyPath = ''./relayer_key.pem'', RelayerBin = ''/usr/local/bin/relayer'',
      HeartbeatPeriod = 30 * Second\<rparr>"

text \<open>
  An environment whose endpoints, chain id and paths are not what their names ask for,
  with a period that parses.
\<close>

definition malformed_env :: "string \<Rightarrow> string" where
  "malformed_env name =
     (case map_of [(''SOVEREIGN_RPC'', ''not an endpoint''),
                   (''SOVEREIGN_GRPC'', ''::''),
                   (''SOVEREIGN_CHAIN_ID'', ''?''),
                   (''VAL_ADDR'', example_address),
                   (''RELAYER_KEY_PATH'', ''/no/such/file''),
                   (''RELAYER_BIN'', ''/no/such/file''),
                   (''HEARTBEAT_PERIOD'', ''30s'')] name of
        None \<Rightarrow> []
      | Some v \<Rightarrow> v)"

text \<open>
  A tick in which the keyring, the key file and the signature answer without error,
  and one in which the key file is not there. The bytes of the key's address and of
  the signature stand for whichever the key gives; the agent does not look at them.
  The answers of the transaction package and of the RPC node are there to fill the
  record.
\<close>

definition tick_ok :: tick_world where
  "tick_ok =
     \<lparr>keyring_New = None,
      os_ReadFile = (\<lambda>path. Inr ''armored key''),
      kr_ImportPrivKey = (\<lambda>uid armor passphrase. None),
      kr_Key = (\<lambda>uid. Inr (AccAddress ''relayer'')),
      kr_Sign = (\<lambda>uid payload. Inr (''signed '' @ payload)),
      tx_NewFactoryCLI = (\<lambda>clientCtx flags. \<lparr>chainID = ChainID clientCtx, gas = 0, fees = []\<rparr>),
      tx_BuildUnsignedTx = (\<lambda>txf msg. None),
      tx_Sign = (\<lambda>txf uid txb. Inr ''txsig''),
      TxJSONEncoder = (\<lambda>txb. Inr (concat (map OriginHeightsJSON (msgs txb)))),
      TxEncoder = (\<lambda>txb. Inr (concat (map OriginHeightsJSON (msgs txb)))),
      client_NewClientFromNode = (\<lambda>addr. None),
      clientCtx_BroadcastTx = (\<lambda>txBytes. Inr ''A1B2'')\<rparr>"

definition tick_no_key :: tick_world where
  "tick_no_key =
     tick_ok\<lparr>os_ReadFile := (\<lambda>path. Inl (Err (''open '' @ path @ '': no such file or directory'')))\<rparr>"

text \<open>
  A codec for the examples: it writes a heartbeat as an object of its three fields
  under their JSON tags, in the order of declaration and with the bytes as they are,
  and returns an error for the other messages. A second one writes the same members
  in the opposite order.
\<close>

definition example_cdc :: codec where
  "example_cdc m =
     (case m of
        Heartbeat h \<Rightarrow>
          Some (JObject [(''val_addr'', JString (case MsgHeartbeat.ValAddr h of ValAddress b \<Rightarrow> b)),
                         (''origin_heights_json'', JString (OriginHeightsJSON h)),
                         (''sig'', JString (Sig h))])
      | _ \<Rightarrow> None)"

definition example_cdc_rev :: codec where
  "example_cdc_rev m = map_option (reorder rev) (example_cdc m)"

text \<open>A duty for the examples: created at height 100 with a window of 50.\<close>

definition example_duty :: "DutyStatus \<Rightarrow> Duty" where
  "example_duty st =
     \<lparr>route = \<lparr>Origin = ''Sovereign'', Destination = ''Light''\<rparr>, messageId = 1,
      assignedValidator = ValAddress ''val'', createdHeight = 100, deadlineHeight = 150,
      status = st\<rparr>"

section \<open>Basic validation of the messages\<close>

text \<open>
  Claim C4. For each of the four message types, \<^verbatim>\<open>ValidateBasic\<close> returns an error
  if and only if a required address is empty: the validator address of a registration
  or a heartbeat, the assigned validator or the signer of a report. Otherwise it
  returns nil. The error is always the invalid-address error.
\<close>

theorem ValidateBasic_error_iff_address_empty:
  "(ValidateBasic m \<noteq> None) = required_address_empty m
   \<and> (ValidateBasic m = None \<or> (\<exists>d. ValidateBasic m = Some (Wrap ErrInvalidAddress d)))"
  by (cases m)
    (simp_all add: MsgRegisterSidecars_ValidateBasic_def MsgHeartbeat_ValidateBasic_def
      MsgReportMissed_ValidateBasic_def MsgReportInvalid_ValidateBasic_def)

theorem ValidateBasic_error_iff_address_empty_witness:
  "ValidateBasic (ReportMissed (NewMsgReportMissed \<lparr>Origin = ''Sovereign'', Destination = ''Light''\<rparr>
       1 (ValAddress ''val'') ''p'' ''q'' (AccAddress []))) \<noteq> None
   \<and> ValidateBasic (Heartbeat (NewMsgHeartbeat (ValAddress ''val'') [] [])) = None"
  using ValidateBasic_error_iff_address_empty
    [of "ReportMissed (NewMsgReportMissed \<lparr>Origin = ''Sovereign'', Destination = ''Light''\<rparr>
       1 (ValAddress ''val'') ''p'' ''q'' (AccAddress []))"]
    ValidateBasic_error_iff_address_empty [of "Heartbeat (NewMsgHeartbeat (ValAddress ''val'') [] [])"]
  by (simp add: NewMsgReportMissed_def NewMsgHeartbeat_def)

text \<open>
  Claim C9. \<^verbatim>\<open>ValidateBasic\<close> reads the address fields and nothing else: its result is
  the same whatever the public keys, the heights string, the signature, the proofs,
  the route and the message id are. So a message whose required addresses are
  non-empty passes, also with empty keys, an empty heights string, an empty signature,
  empty proofs and a zero route.
\<close>

theorem ValidateBasic_reads_only_addresses:
  "MsgRegisterSidecars_ValidateBasic (NewMsgRegisterSidecars v rk vk)
     = MsgRegisterSidecars_ValidateBasic (NewMsgRegisterSidecars v [] [])
   \<and> MsgHeartbeat_ValidateBasic (NewMsgHeartbeat v js sg)
     = MsgHeartbeat_ValidateBasic (NewMsgHeartbeat v [] [])
   \<and> MsgReportMissed_ValidateBasic (NewMsgReportMissed r i v op dp s)
     = MsgReportMissed_ValidateBasic
         (NewMsgReportMissed \<lparr>Origin = [], Destination = []\<rparr> 0 v [] [] s)
   \<and> MsgReportInvalid_ValidateBasic (NewMsgReportInvalid r i v fp s)
     = MsgReportInvalid_ValidateBasic
         (NewMsgReportInvalid \<lparr>Origin = [], Destination = []\<rparr> 0 v [] s)
   \<and> (\<not> ValAddress_Empty v \<longrightarrow>
        MsgRegisterSidecars_ValidateBasic (NewMsgRegisterSidecars v [] []) = None
      \<and> MsgHeartbeat_ValidateBasic (NewMsgHeartbeat v [] []) = None)
   \<and> (\<not> ValAddress_Empty v \<and> \<not> AccAddress_Empty s \<longrightarrow>
        MsgReportMissed_ValidateBasic
          (NewMsgReportMissed \<lparr>Origin = [], Destination = []\<rparr> 0 v [] [] s) = None
      \<and> MsgReportInvalid_ValidateBasic
          (NewMsgReportInvalid \<lparr>Origin = [], Destination = []\<rparr> 0 v [] s) = None)"
  by (simp add: MsgRegisterSidecars_ValidateBasic_def MsgHeartbeat_ValidateBasic_def
      MsgReportMissed_ValidateBasic_def MsgReportInvalid_ValidateBasic_def
      NewMsgRegisterSidecars_def NewMsgHeartbeat_def NewMsgReportMissed_def
      NewMsgReportInvalid_def)

theorem ValidateBasic_reads_only_addresses_witness:
  "\<not> ValAddress_Empty (ValAddress ''val'') \<and> \<not> AccAddress_Empty (AccAddress ''acc'')
   \<and> MsgRegisterSidecars_ValidateBasic (NewMsgRegisterSidecars (ValAddress ''val'') [] []) = None
   \<and> MsgHeartbeat_ValidateBasic (NewMsgHeartbeat (ValAddress ''val'') [] []) = None
   \<and> MsgReportMissed_ValidateBasic
        (NewMsgReportMissed \<lparr>Origin = [], Destination = []\<rparr> 0 (ValAddress ''val'') [] []
          (AccAddress ''acc'')) = None
   \<and> MsgReportInvalid_ValidateBasic
        (NewMsgReportInvalid \<lparr>Origin = [], Destination = []\<rparr> 0 (ValAddress ''val'') []
          (AccAddress ''acc'')) = None"
  using ValidateBasic_reads_only_addresses [of "ValAddress ''val''" _ _ _ _ _ _ _ _ "AccAddress ''acc''"]
  by simp

section \<open>Signers of the messages\<close>

text \<open>
  Claim C5. \<^verbatim>\<open>GetSigners\<close> returns exactly one signer. For a registration and a
  heartbeat it is the account address with the bytes of the message's own validator
  address. For a missed-duty and an invalid-relay report it is the message's
  \<^verbatim>\<open>Signer\<close> field, whatever the assigned validator is.
\<close>

theorem GetSigners_one_signer:
  "GetSigners (RegisterSidecars (NewMsgRegisterSidecars (ValAddress a) rk vk)) = [AccAddress a]
   \<and> GetSigners (Heartbeat (NewMsgHeartbeat (ValAddress a) js sg)) = [AccAddress a]
   \<and> GetSigners (ReportMissed (NewMsgReportMissed r i v op dp s)) = [s]
   \<and> GetSigners (ReportInvalid (NewMsgReportInvalid r i v fp s)) = [s]
   \<and> length (GetSigners m) = 1"
  by (cases m)
    (simp_all add: MsgRegisterSidecars_GetSigners_def MsgHeartbeat_GetSigners_def
      MsgReportMissed_GetSigners_def MsgReportInvalid_GetSigners_def
      NewMsgRegisterSidecars_def NewMsgHeartbeat_def NewMsgReportMissed_def
      NewMsgReportInvalid_def)

section \<open>Terminal states of a duty\<close>

lemma get_append_new:
  "get (reg @ [d]) r i =
     (case get reg r i of
        Inr x \<Rightarrow> Inr x
      | Inl e \<Rightarrow> (if duty_key d = (r, i) then Inr d else Inl NotFound))"
  by (induction reg) auto

lemma get_replace:
  "get (map (\<lambda>e. if duty_key e = duty_key d then d else e) reg) r i =
     (case get reg r i of
        Inl e \<Rightarrow> Inl e
      | Inr x \<Rightarrow> (if (r, i) = duty_key d then Inr d else Inr x))"
  by (induction reg) auto

lemma apply_op_terminal_kept:
  assumes "get reg r i = Inr x" "status x \<noteq> Pending"
  shows "get (apply_op reg op) r i = Inr x"
proof (cases op)
  case (Upsert d)
  show ?thesis
  proof (cases "get reg (route d) (messageId d)")
    case (Inl e)
    then have "(route d, messageId d) \<noteq> (r, i)" using assms by auto
    then show ?thesis using Inl assms Upsert
      by (simp add: upsert_def get_append_new duty_key_def)
  next
    case (Inr old)
    show ?thesis
    proof (cases "status old \<noteq> Pending")
      case True
      then show ?thesis using Inr Upsert assms by (simp add: upsert_def)
    next
      case False
      then have "(r, i) \<noteq> duty_key d" using assms Inr by (auto simp: duty_key_def)
      then show ?thesis using Inr Upsert assms False
        by (simp add: upsert_def get_replace)
    qed
  qed
qed (use assms in simp_all)

lemma apply_ops_terminal_kept:
  "get reg r i = Inr x \<Longrightarrow> status x \<noteq> Pending \<Longrightarrow> get (apply_ops reg ops) r i = Inr x"
  by (induction ops arbitrary: reg) (simp_all add: apply_op_terminal_kept)

text \<open>
  Claim C1. Whatever operations are applied to the registry, a duty whose status is
  no longer Pending keeps that status for ever. A single operation changes a status
  only from Pending, and only to Fulfilled, Missed or Invalid. An \<^verbatim>\<open>upsert\<close> onto a
  duty whose status is terminal is rejected and leaves the registry as it was.
\<close>

theorem terminal_status_is_final:
  "(status_of reg r i = Some s \<and> s \<noteq> Pending \<longrightarrow> status_of (apply_ops reg ops) r i = Some s)
   \<and> (status_of reg r i = Some s \<and> status_of (apply_op reg op) r i = Some s' \<and> s' \<noteq> s \<longrightarrow>
        s = Pending \<and> s' \<in> {Fulfilled, Missed, Invalid})
   \<and> (get reg (route d) (messageId d) = Inr old \<and> status old \<noteq> Pending \<longrightarrow>
        upsert reg d = Inl TerminalTransition \<and> apply_op reg (Upsert d) = reg)"
proof (intro conjI impI)
  assume a: "status_of reg r i = Some s \<and> s \<noteq> Pending"
  then obtain x where x: "get reg r i = Inr x" "status x = s"
    by (auto simp: status_of_def split: sum.splits)
  with a have "get (apply_ops reg ops) r i = Inr x" by (simp add: apply_ops_terminal_kept)
  with x show "status_of (apply_ops reg ops) r i = Some s" by (simp add: status_of_def)
next
  assume a: "status_of reg r i = Some s \<and> status_of (apply_op reg op) r i = Some s' \<and> s' \<noteq> s"
  then obtain x where x: "get reg r i = Inr x" "status x = s"
    by (auto simp: status_of_def split: sum.splits)
  show "s = Pending"
  proof (rule ccontr)
    assume "s \<noteq> Pending"
    with x have "get (apply_op reg op) r i = Inr x" by (simp add: apply_op_terminal_kept)
    then have "status_of (apply_op reg op) r i = Some s" using x by (simp add: status_of_def)
    with a show False by auto
  qed
  then show "s' \<in> {Fulfilled, Missed, Invalid}" using a by (cases s') auto
next
  assume "get reg (route d) (messageId d) = Inr old \<and> status old \<noteq> Pending"
  then show "upsert reg d = Inl TerminalTransition" by (simp add: upsert_def)
  then show "apply_op reg (Upsert d) = reg" by simp
qed

theorem terminal_status_is_final_witness:
  "status_of [example_duty Missed] \<lparr>Origin = ''Sovereign'', Destination = ''Light''\<rparr> 1 = Some Missed
   \<and> status_of (apply_ops [example_duty Missed]
        [Upsert (example_duty Fulfilled), Get \<lparr>Origin = ''Sovereign'', Destination = ''Light''\<rparr> 1,
         Upsert (example_duty Pending), Upsert (example_duty Invalid)])
        \<lparr>Origin = ''Sovereign'', Destination = ''Light''\<rparr> 1 = Some Missed
   \<and> status_of (apply_op [example_duty Pending] (Upsert (example_duty Fulfilled)))
        \<lparr>Origin = ''Sovereign'', Destination = ''Light''\<rparr> 1 = Some Fulfilled
   \<and> upsert [example_duty Missed] (example_duty Pending) = Inl TerminalTransition
   \<and> apply_op [example_duty Missed] (Upsert (example_duty Pending)) = [example_duty Missed]"
  using terminal_status_is_final
    [of "[example_duty Missed]" "\<lparr>Origin = ''Sovereign'', Destination = ''Light''\<rparr>" 1 Missed
      "[Upsert (example_duty Fulfilled), Get \<lparr>Origin = ''Sovereign'', Destination = ''Light''\<rparr> 1,
        Upsert (example_duty Pending), Upsert (example_duty Invalid)]"
      "Get \<lparr>Origin = ''Sovereign'', Destination = ''Light''\<rparr> 1" Missed
      "example_duty Pending" "example_duty Missed"]
  by (simp add: status_of_def example_duty_def duty_key_def upsert_def)

section \<open>Sorting the members of JSON objects\<close>

lemma sort_key_unique:
  assumes d: "distinct (map f xs)" and m: "mset xs = mset ys"
  shows "sort_key f xs = sort_key f ys"
proof -
  have s: "set xs = set ys" using m by (rule mset_eq_setD)
  have dy: "distinct (map f ys)"
  proof -
    have h: "mset (map f ys) = mset (map f xs)" using m by simp
    show ?thesis using mset_eq_imp_distinct_iff [OF h] d by blast
  qed
  have "map f (sort_key f xs) = map f (sort_key f ys)"
  proof (rule sorted_distinct_set_unique)
    show "sorted (map f (sort_key f xs))" by simp
    show "sorted (map f (sort_key f ys))" by simp
    show "distinct (map f (sort_key f xs))" using d by (simp add: distinct_map)
    show "distinct (map f (sort_key f ys))" using dy by (simp add: distinct_map)
    show "set (map f (sort_key f xs)) = set (map f (sort_key f ys))" using s by simp
  qed
  moreover have "inj_on f (set (sort_key f xs) \<union> set (sort_key f ys))"
    using d s by (simp add: distinct_map)
  ultimately show ?thesis by (simp add: inj_on_map_eq_map)
qed

lemma last_wins_distinct: "distinct (map fst kvs) \<Longrightarrow> last_wins kvs = kvs"
  by (induction kvs rule: last_wins.induct) auto

lemma set_last_wins: "set (last_wins kvs) \<subseteq> set kvs"
  by (induction kvs rule: last_wins.induct) auto

lemma fst_set_last_wins: "fst ` set (last_wins kvs) = fst ` set kvs"
  by (induction kvs rule: last_wins.induct) auto

lemma distinct_last_wins: "distinct (map fst (last_wins kvs))"
  by (induction kvs rule: last_wins.induct) (auto simp: fst_set_last_wins)

lemma map_fst_map_prod: "map fst (map (map_prod id g) kvs) = map fst kvs"
  by (induction kvs) auto

lemma sortJSON_reorder:
  assumes p: "\<And>xs. mset (p xs) = mset xs"
  shows "distinct_keys j \<Longrightarrow> sortJSON num (reorder p j) = sortJSON num j"
proof (induction j)
  case (JArray xs)
  then show ?case by (auto simp: list_all_iff)
next
  case (JObject kvs)
  let ?F = "map_prod id (sortJSON num)"
  let ?L = "map (map_prod id (reorder p)) kvs"
  have ih: "map ?F ?L = map ?F kvs"
    using JObject by (auto simp: list_all_iff)
  have m: "mset (map ?F kvs) = mset (map ?F (p ?L))"
    using p [of ?L] ih by (metis mset_map)
  have d: "distinct (map fst (map ?F kvs))"
    using JObject.prems by (simp add: map_fst_map_prod)
  have d': "distinct (map fst (map ?F (p ?L)))"
  proof -
    have h: "mset (map fst (map ?F (p ?L))) = mset (map fst (map ?F kvs))"
      using m by (metis mset_map)
    show ?thesis using mset_eq_imp_distinct_iff [OF h] d by blast
  qed
  have "sort_key fst (map ?F kvs) = sort_key fst (map ?F (p ?L))"
    using d m by (rule sort_key_unique)
  then show ?case using d d' by (simp add: last_wins_distinct)
qed simp_all

lemma keys_sorted_sortJSON: "keys_sorted (sortJSON num j)"
proof (induction j)
  case (JArray xs)
  then show ?case by (auto simp: list_all_iff)
next
  case (JObject kvs)
  let ?R = "last_wins (map (map_prod id (sortJSON num)) kvs)"
  have "distinct (map fst (sort_key fst ?R))"
    using distinct_last_wins [of "map (map_prod id (sortJSON num)) kvs"] by (simp add: distinct_map)
  moreover have "\<forall>kv \<in> set ?R. keys_sorted (snd kv)"
    using JObject set_last_wins [of "map (map_prod id (sortJSON num)) kvs"] by fastforce
  ultimately show ?case by (auto simp: list_all_iff)
qed simp_all

lemma json_Marshal_map_of:
  assumes "distinct (map fst m)" "distinct (map fst m')" "map_of m = map_of m'"
  shows "json_Marshal m = json_Marshal m'"
proof -
  have "set m = set m'" using assms by (simp add: map_of_inject_set)
  moreover have "distinct m" "distinct m'" using assms by (auto simp: distinct_map)
  ultimately have "mset m = mset m'" by (simp add: set_eq_iff_mset_eq_distinct)
  with assms(1) have "sort_key fst m = sort_key fst m'" by (rule sort_key_unique)
  then show ?thesis by (simp add: json_Marshal_def)
qed

section \<open>The heartbeat of the agent\<close>

lemma digits_small: "n < 10 \<Longrightarrow> digits n = [''0123456789'' ! n]"
  by (simp add: digits.simps)

lemma digits_large: "\<not> n < 10 \<Longrightarrow> digits n = digits (n div 10) @ [''0123456789'' ! (n mod 10)]"
  by (subst digits.simps) simp

lemma json_Marshal_originHeights: "json_Marshal originHeights = Inr origin_heights_json"
  by (simp add: json_Marshal_def originHeights_def origin_heights_json_def json_string_def
      escape_byte_def digits_small digits_large)

text \<open>
  What \<^verbatim>\<open>sendHeartbeat\<close> comes to, with the nil flag set it hands to the factory: the
  first call that fails gives the error returned, and when none fails the factory
  panics.
\<close>

lemma sendHeartbeat_eq:
  "sendHeartbeat w config valAddr dryRun =
     (let t0 = [Log ''Building heartbeat transaction...'' []] in
      case keyring_New w of
        Some err \<Rightarrow> (Return (Some (Errorf ''failed to create keyring: %w'' err)), t0)
      | None \<Rightarrow>
          (let t1 = t0 @ [FileRead (RelayerKeyPath config)] in
           case os_ReadFile w (RelayerKeyPath config) of
             Inl err \<Rightarrow> (Return (Some (Errorf ''failed to read relayer key: %w'' err)), t1)
           | Inr keyBytes \<Rightarrow>
               (case kr_ImportPrivKey w ''relayer'' keyBytes ''password'' of
                  Some err \<Rightarrow> (Return (Some (Errorf ''failed to import private key: %w'' err)), t1)
                | None \<Rightarrow>
                    (case kr_Key w ''relayer'' of
                       Inl err \<Rightarrow>
                         (Return (Some (Errorf ''failed to get key from keyring: %w'' err)), t1)
                     | Inr relayerKey \<Rightarrow>
                         (let t2 = t1 @ [KeyringSigned ''relayer'' origin_heights_json] in
                          case kr_Sign w ''relayer'' origin_heights_json of
                            Inl err \<Rightarrow>
                              (Return (Some (Errorf ''failed to sign heartbeat data: %w'' err)), t2)
                          | Inr sig \<Rightarrow>
                              (Panics nil_dereference,
                               t2 @ [MsgBuilt (NewMsgHeartbeat valAddr origin_heights_json sig)]))))))"
  by (simp add: sendHeartbeat_def json_Marshal_originHeights NewFactoryCLI_def Let_def
      split: option.splits sum.splits)

lemma sendHeartbeat_panics:
  "keys_ready w config \<Longrightarrow> fst (sendHeartbeat w config valAddr dryRun) = Panics nil_dereference"
  by (auto simp: sendHeartbeat_eq keys_ready_def Let_def split: option.splits sum.splits)


lemma sendHeartbeat_never_nil: "fst (sendHeartbeat w config valAddr dryRun) \<noteq> Return None"
  by (simp add: sendHeartbeat_eq Let_def split: option.splits sum.splits)

lemma sendHeartbeat_no_network:
  "filter is_network (snd (sendHeartbeat w config valAddr dryRun)) = []"
  by (simp add: sendHeartbeat_eq Let_def split: option.splits sum.splits)

lemma sendHeartbeat_no_stdout:
  "Stdout js \<notin> set (snd (sendHeartbeat w config valAddr dryRun))"
  by (simp add: sendHeartbeat_eq Let_def split: option.splits sum.splits)

lemma sendHeartbeat_signed:
  "KeyringSigned uid payload \<in> set (snd (sendHeartbeat w config valAddr dryRun)) \<Longrightarrow>
     uid = ''relayer'' \<and> json_Marshal originHeights = Inr payload"
  by (auto simp: sendHeartbeat_eq json_Marshal_originHeights Let_def
      split: option.splits sum.splits)

lemma sendHeartbeat_built:
  "MsgBuilt msg \<in> set (snd (sendHeartbeat w config valAddr dryRun)) \<Longrightarrow>
     MsgHeartbeat.ValAddr msg = valAddr
     \<and> json_Marshal originHeights = Inr (OriginHeightsJSON msg)
     \<and> kr_Sign w ''relayer'' (OriginHeightsJSON msg) = Inr (Sig msg)"
  by (auto simp: sendHeartbeat_eq json_Marshal_originHeights NewMsgHeartbeat_def Let_def
      split: option.splits sum.splits)

lemma sorted_json_Marshal:
  "\<exists>kvs. json_Marshal m = Inr (render (JObject kvs)) \<and> sorted (map fst kvs)
     \<and> mset (map fst kvs) = mset (map fst m)"
proof -
  let ?kvs = "map (\<lambda>(k, v). (k, JNumber (digits (unat v)))) (sort_key fst m)"
  have k: "map fst ?kvs = map fst (sort_key fst m)" by (simp add: case_prod_unfold comp_def)
  have "sorted (map fst ?kvs)" unfolding k by simp
  moreover have "mset (map fst ?kvs) = mset (map fst m)" unfolding k by simp
  moreover have "json_Marshal m = Inr (render (JObject ?kvs))" by (simp add: json_Marshal_def)
  ultimately show ?thesis by blast
qed

text \<open>
  Claim C6. The payload that \<^verbatim>\<open>sendHeartbeat\<close> hands to the keyring for signing is the
  JSON encoding of the map of origin heights, and the message it builds carries that
  same text together with the signature the keyring returned for it. The encoding
  writes the entries sorted by key, so it does not depend on the order in which the
  map is visited: two maps with the same entries give the same bytes.
\<close>

theorem heartbeat_signs_sorted_heights:
  "(KeyringSigned uid payload \<in> set (snd (sendHeartbeat w config valAddr dryRun)) \<longrightarrow>
      uid = ''relayer'' \<and> json_Marshal originHeights = Inr payload)
   \<and> (MsgBuilt msg \<in> set (snd (sendHeartbeat w config valAddr dryRun)) \<longrightarrow>
        json_Marshal originHeights = Inr (OriginHeightsJSON msg)
        \<and> kr_Sign w ''relayer'' (OriginHeightsJSON msg) = Inr (Sig msg))
   \<and> (distinct (map fst m) \<and> distinct (map fst m') \<and> map_of m = map_of m' \<longrightarrow>
        json_Marshal m = json_Marshal m')
   \<and> (\<exists>kvs. json_Marshal m = Inr (render (JObject kvs)) \<and> sorted (map fst kvs)
        \<and> mset (map fst kvs) = mset (map fst m))"
  using sendHeartbeat_signed [of uid payload w config valAddr dryRun]
    sendHeartbeat_built [of msg w config valAddr dryRun]
    json_Marshal_map_of [of m m'] sorted_json_Marshal [of m]
  by blast

section \<open>Two ticks of the example\<close>

lemma sendHeartbeat_tick_ok:
  "sendHeartbeat tick_ok example_config example_valAddr dryRun =
     (Panics nil_dereference,
      [Log ''Building heartbeat transaction...'' [], FileRead ''./relayer_key.pem'',
       KeyringSigned ''relayer'' origin_heights_json,
       MsgBuilt (NewMsgHeartbeat example_valAddr origin_heights_json
                   (''signed '' @ origin_heights_json))])"
  by (simp add: sendHeartbeat_eq tick_ok_def example_config_def)

lemma sendHeartbeat_tick_no_key:
  "sendHeartbeat tick_no_key example_config example_valAddr dryRun =
     (Return (Some (Errorf ''failed to read relayer key: %w''
                      (Err ''open ./relayer_key.pem: no such file or directory''))),
      [Log ''Building heartbeat transaction...'' [], FileRead ''./relayer_key.pem''])"
  by (simp add: sendHeartbeat_eq tick_no_key_def tick_ok_def example_config_def)

lemma ParseDuration_empty: "ParseDuration [] = Inl (Err (''time: invalid duration '' @ [CHR 0x22, CHR 0x22]))"
  by (simp add: ParseDuration_def invalid_duration_def time_quote_def)

lemma readEnvConfig_example:
  "readEnvConfig example_env =
     (example_config,
      [Log ''Invalid HEARTBEAT_PERIOD '%s', defaulting to 30s. Error: %v''
         [S [], E (Err (''time: invalid duration '' @ [CHR 0x22, CHR 0x22]))]])"
  by (simp add: readEnvConfig_def example_env_def example_config_def ParseDuration_empty)

lemma example_config_fields:
  "validateConfig example_config = None"
  "Config.ValAddr example_config = example_address"
  "HeartbeatPeriod example_config = 30 * Second"
  "\<not> 30 * Second \<le> 0"
  "ValAddressFromBech32 example_world example_address = Inr example_valAddr"
  "Getenv example_world = example_env"
  by (simp_all add: validateConfig_def example_config_def example_world_def Second_def
      example_address_def)

lemma main_example_start:
  "main example_world dryRun [] =
     (Running,
      [Log ''Invalid HEARTBEAT_PERIOD '%s', defaulting to 30s. Error: %v''
         [S [], E (Err (''time: invalid duration '' @ [CHR 0x22, CHR 0x22]))],
       Log ''Starting duty agent for validator %s'' [S example_address],
       Log ''Heartbeat period: %s'' [D (30 * Second)]])"
  by (simp add: main_def readEnvConfig_example example_config_fields)

lemma main_example_two_ticks:
  "main example_world dryRun [tick_no_key, tick_ok] =
     (Panicked nil_dereference,
      [Log ''Invalid HEARTBEAT_PERIOD '%s', defaulting to 30s. Error: %v''
         [S [], E (Err (''time: invalid duration '' @ [CHR 0x22, CHR 0x22]))],
       Log ''Starting duty agent for validator %s'' [S example_address],
       Log ''Heartbeat period: %s'' [D (30 * Second)],
       Log ''Ticker event: checking for duties and sending heartbeat...'' [],
       Log ''Querying for duty assignments...'' [],
       Log ''Building heartbeat transaction...'' [], FileRead ''./relayer_key.pem'',
       Log ''Error sending heartbeat: %v''
         [E (Errorf ''failed to read relayer key: %w''
               (Err ''open ./relayer_key.pem: no such file or directory''))],
       Log ''Ticker event: checking for duties and sending heartbeat...'' [],
       Log ''Querying for duty assignments...'' [],
       Log ''Building heartbeat transaction...'' [], FileRead ''./relayer_key.pem'',
       KeyringSigned ''relayer'' origin_heights_json,
       MsgBuilt (NewMsgHeartbeat example_valAddr origin_heights_json
                   (''signed '' @ origin_heights_json))])"
  by (simp add: main_def readEnvConfig_example example_config_fields tick_def
      sendHeartbeat_tick_ok sendHeartbeat_tick_no_key)

theorem heartbeat_signs_sorted_heights_witness:
  "KeyringSigned ''relayer'' origin_heights_json
     \<in> set (snd (sendHeartbeat tick_ok example_config example_valAddr True))
   \<and> json_Marshal originHeights = Inr origin_heights_json
   \<and> MsgBuilt (NewMsgHeartbeat example_valAddr origin_heights_json (''signed '' @ origin_heights_json))
     \<in> set (snd (sendHeartbeat tick_ok example_config example_valAddr True))
   \<and> kr_Sign tick_ok ''relayer'' origin_heights_json = Inr (''signed '' @ origin_heights_json)
   \<and> json_Marshal [(''other-2'', 456), (''light-1'', 123)] = json_Marshal originHeights"
proof -
  have m: "map_of [(''other-2'', 456), (''light-1'', 123)] = map_of originHeights"
    by (auto simp: originHeights_def fun_eq_iff)
  have d: "distinct (map fst [(''other-2'', 456 :: 64 word), (''light-1'', 123)])"
    "distinct (map fst originHeights)"
    by (simp_all add: originHeights_def)
  from d m heartbeat_signs_sorted_heights
    [of "''relayer''" origin_heights_json tick_ok example_config example_valAddr True
      "NewMsgHeartbeat example_valAddr origin_heights_json (''signed '' @ origin_heights_json)"
      "[(''other-2'', 456), (''light-1'', 123)]" originHeights]
  show ?thesis
    by (simp add: sendHeartbeat_tick_ok NewMsgHeartbeat_def)
qed

section \<open>The loop of the agent\<close>


lemma tick_panic:
  "fst (sendHeartbeat tw config valAddr dryRun) = Panics p \<Longrightarrow>
   tick config valAddr dryRun tw =
     (Panicked p,
      [Log ''Ticker event: checking for duties and sending heartbeat...'' [],
       Log ''Querying for duty assignments...'' []]
      @ snd (sendHeartbeat tw config valAddr dryRun))"
  by (cases "sendHeartbeat tw config valAddr dryRun") (simp add: tick_def)

lemma tick_events:
  "e \<in> set (snd (tick config valAddr dryRun tw)) \<Longrightarrow>
     e \<in> set (snd (sendHeartbeat tw config valAddr dryRun)) \<or> (\<exists>f as. e = Log f as)"
  by (cases "sendHeartbeat tw config valAddr dryRun")
    (auto simp: tick_def Let_def split: outcome.splits option.splits)

lemma agent_loop_events:
  "e \<in> set (snd (agent_loop config valAddr dryRun ws)) \<Longrightarrow>
     (\<exists>tw \<in> set ws. e \<in> set (snd (sendHeartbeat tw config valAddr dryRun)))
     \<or> (\<exists>f as. e = Log f as)"
proof (induction ws)
  case Nil
  then show ?case by simp
next
  case (Cons w ws)
  obtain st t where t: "tick config valAddr dryRun w = (st, t)" by (cases "tick config valAddr dryRun w")
  obtain st' t' where t': "agent_loop config valAddr dryRun ws = (st', t')"
    by (cases "agent_loop config valAddr dryRun ws")
  from Cons.prems t t' have "e \<in> set t \<or> e \<in> set t'" by (auto split: if_splits)
  then show ?case
  proof
    assume "e \<in> set t"
    with t tick_events [of e config valAddr dryRun w] show ?thesis by auto
  next
    assume "e \<in> set t'"
    with t' Cons.IH show ?thesis by auto
  qed
qed

lemma main_events:
  assumes "e \<in> set (snd (main w dryRun ticks))"
  shows "(\<exists>tw config valAddr. e \<in> set (snd (sendHeartbeat tw config valAddr dryRun)))
     \<or> (\<exists>f as. e = Log f as)"
proof (cases "readEnvConfig (Getenv w)")
  case (Pair config t0)
  have l: "e \<in> set t0 \<Longrightarrow> \<exists>f as. e = Log f as"
    using Pair by (auto simp: readEnvConfig_def Let_def split: sum.splits)
  show ?thesis
  proof (cases "\<exists>v. ValAddressFromBech32 w (Config.ValAddr config) = Inr v")
    case False
    with assms Pair l show ?thesis
      by (auto simp: main_def Let_def split: option.splits sum.splits)
  next
    case True
    then obtain v where v: "ValAddressFromBech32 w (Config.ValAddr config) = Inr v" by blast
    obtain st t where a: "agent_loop config v dryRun ticks = (st, t)"
      by (cases "agent_loop config v dryRun ticks")
    from assms Pair v a have "e \<in> set t0 \<or> e \<in> set t \<or> (\<exists>f as. e = Log f as)"
      by (auto simp: main_def Let_def split: option.splits if_splits)
    with l a agent_loop_events [of e config v dryRun ticks] show ?thesis by auto
  qed
qed


lemma main_in_loop:
  assumes "fst (main w dryRun []) = Running"
  shows "\<exists>v. ValAddressFromBech32 w (Getenv w ''VAL_ADDR'') = Inr v
     \<and> (\<forall>ticks. main w dryRun ticks =
           (fst (agent_loop (fst (readEnvConfig (Getenv w))) v dryRun ticks),
            snd (main w dryRun [])
            @ snd (agent_loop (fst (readEnvConfig (Getenv w))) v dryRun ticks)))"
proof (cases "readEnvConfig (Getenv w)")
  case (Pair config t0)
  have f: "Config.ValAddr config = Getenv w ''VAL_ADDR''"
    using Pair by (auto simp: readEnvConfig_def Let_def split: sum.splits)
  from assms Pair show ?thesis
    by (auto simp: main_def Let_def f split: option.splits sum.splits if_splits prod.splits)
qed

lemma ParseDuration_30s: "ParseDuration ''30s'' = Inr (30 * Second)"
  by (simp add: ParseDuration_def parse_groups.simps [of _ _ "''30s''"] parse_groups.simps [of _ _ "[]"]
      parse_group_def parse_fraction_def parse_unit_def unitMap_def
      in_number_def is_digit_def digit_value_def less_eq_char_def Second_def Let_def)

lemma main_no_network: "filter is_network (snd (main w dryRun ticks)) = []"
proof -
  have "\<not> is_network e" if "e \<in> set (snd (main w dryRun ticks))" for e
  proof
    assume n: "is_network e"
    from main_events [OF that] n obtain tw config valAddr where
      "e \<in> set (snd (sendHeartbeat tw config valAddr dryRun))" by auto
    with n have "e \<in> set (filter is_network (snd (sendHeartbeat tw config valAddr dryRun)))"
      by simp
    then show False by (simp add: sendHeartbeat_no_network)
  qed
  then show ?thesis by (simp add: filter_empty_conv)
qed

lemma main_no_stdout: "Stdout js \<notin> set (snd (main w dryRun ticks))"
  using main_events [of "Stdout js" w dryRun ticks] sendHeartbeat_no_stdout by auto

lemma main_panics_at_tick:
  assumes "fst (main w dryRun []) = Running"
    and "keys_ready tw (fst (readEnvConfig (Getenv w)))"
  shows "fst (main w dryRun (tw # ticks)) = Panicked nil_dereference"
proof -
  from main_in_loop [OF assms(1)] obtain v where
    m: "\<And>ts. main w dryRun ts =
          (fst (agent_loop (fst (readEnvConfig (Getenv w))) v dryRun ts),
           snd (main w dryRun []) @ snd (agent_loop (fst (readEnvConfig (Getenv w))) v dryRun ts))"
    by blast
  have "fst (tick (fst (readEnvConfig (Getenv w))) v dryRun tw) = Panicked nil_dereference"
    using sendHeartbeat_panics [OF assms(2), of v dryRun] by (simp add: tick_panic)
  then have "fst (agent_loop (fst (readEnvConfig (Getenv w))) v dryRun (tw # ticks))
      = Panicked nil_dereference"
    by (auto split: prod.splits)
  then show ?thesis by (simp add: m [of "tw # ticks"])
qed

section \<open>The dry run\<close>

text \<open>
  Claim C2, as the code has it. With the dry-run flag or without it, \<^verbatim>\<open>sendHeartbeat\<close>
  and the whole run of \<^verbatim>\<open>main\<close> over any ticks open no connection to the RPC node and
  broadcast nothing; but they print nothing on standard output either, and
  \<^verbatim>\<open>sendHeartbeat\<close> never returns nil. In a tick in which the keyring, the key file and
  the signature answer without error, \<^verbatim>\<open>sendHeartbeat\<close> panics on the nil flag set it
  hands to the transaction factory, before any transaction is built, and the process
  that had reached its loop ends there.
\<close>

theorem dry_run_panics_before_printing:
  "filter is_network (snd (sendHeartbeat tw config valAddr dryRun)) = []
   \<and> filter is_network (snd (main w dryRun ticks)) = []
   \<and> Stdout js \<notin> set (snd (sendHeartbeat tw config valAddr dryRun))
   \<and> Stdout js \<notin> set (snd (main w dryRun ticks))
   \<and> fst (sendHeartbeat tw config valAddr dryRun) \<noteq> Return None
   \<and> (keys_ready tw config \<longrightarrow>
        fst (sendHeartbeat tw config valAddr dryRun) = Panics nil_dereference)
   \<and> (fst (main w dryRun []) = Running \<and> keys_ready tw (fst (readEnvConfig (Getenv w))) \<longrightarrow>
        fst (main w dryRun (tw # ticks)) = Panicked nil_dereference)"
  using sendHeartbeat_no_network [of tw config valAddr dryRun] main_no_network [of w dryRun ticks]
    sendHeartbeat_no_stdout [of js tw config valAddr dryRun] main_no_stdout [of js w dryRun ticks]
    sendHeartbeat_never_nil [of tw config valAddr dryRun]
    sendHeartbeat_panics [of tw config valAddr dryRun]
    main_panics_at_tick [of w dryRun tw ticks]
  by blast

theorem dry_run_panics_before_printing_witness:
  "keys_ready tick_ok example_config
   \<and> sendHeartbeat tick_ok example_config example_valAddr True =
       (Panics nil_dereference,
        [Log ''Building heartbeat transaction...'' [], FileRead ''./relayer_key.pem'',
         KeyringSigned ''relayer'' origin_heights_json,
         MsgBuilt (NewMsgHeartbeat example_valAddr origin_heights_json
                     (''signed '' @ origin_heights_json))])
   \<and> fst (main example_world True []) = Running
   \<and> fst (main example_world True [tick_ok]) = Panicked nil_dereference
   \<and> Stdout origin_heights_json \<notin> set (snd (main example_world True [tick_ok]))"
proof -
  have k: "keys_ready tick_ok example_config"
    by (simp add: keys_ready_def tick_ok_def)
  have c: "fst (readEnvConfig (Getenv example_world)) = example_config"
    by (simp add: example_config_fields readEnvConfig_example)
  have r: "fst (main example_world True []) = Running" by (simp add: main_example_start)
  from k c r dry_run_panics_before_printing
    [of tick_ok example_config example_valAddr True example_world "[]" origin_heights_json]
    dry_run_panics_before_printing
    [of tick_ok example_config example_valAddr True example_world "[tick_ok]" origin_heights_json]
  show ?thesis by (simp add: sendHeartbeat_tick_ok)
qed

section \<open>The heights in a heartbeat\<close>

text \<open>
  Claim C7, as the code has it. The heights string of every heartbeat message that the
  agent builds, in any tick and whatever the world answers, is the JSON text of the
  literal map in the source: it does not depend on anything observed at the tick.
\<close>

theorem heartbeat_heights_are_the_literal:
  "(MsgBuilt msg \<in> set (snd (sendHeartbeat tw config valAddr dryRun)) \<longrightarrow>
      OriginHeightsJSON msg = origin_heights_json)
   \<and> (MsgBuilt msg' \<in> set (snd (main w dryRun ticks)) \<longrightarrow>
      OriginHeightsJSON msg' = origin_heights_json)"
proof (intro conjI impI)
  assume "MsgBuilt msg \<in> set (snd (sendHeartbeat tw config valAddr dryRun))"
  then have "json_Marshal originHeights = Inr (OriginHeightsJSON msg)"
    by (simp add: sendHeartbeat_built)
  then show "OriginHeightsJSON msg = origin_heights_json"
    by (simp add: json_Marshal_originHeights)
next
  assume "MsgBuilt msg' \<in> set (snd (main w dryRun ticks))"
  then obtain tw' c v where "MsgBuilt msg' \<in> set (snd (sendHeartbeat tw' c v dryRun))"
    using main_events by blast
  then have "json_Marshal originHeights = Inr (OriginHeightsJSON msg')"
    by (simp add: sendHeartbeat_built)
  then show "OriginHeightsJSON msg' = origin_heights_json"
    by (simp add: json_Marshal_originHeights)
qed

theorem heartbeat_heights_are_the_literal_witness:
  "MsgBuilt (NewMsgHeartbeat example_valAddr origin_heights_json (''signed '' @ origin_heights_json))
     \<in> set (snd (sendHeartbeat tick_ok example_config example_valAddr False))
   \<and> MsgBuilt (NewMsgHeartbeat example_valAddr origin_heights_json (''signed '' @ origin_heights_json))
     \<in> set (snd (main example_world False [tick_no_key, tick_ok]))
   \<and> OriginHeightsJSON
        (NewMsgHeartbeat example_valAddr origin_heights_json (''signed '' @ origin_heights_json))
      = origin_heights_json"
  using heartbeat_heights_are_the_literal
    [of "NewMsgHeartbeat example_valAddr origin_heights_json (''signed '' @ origin_heights_json)"
      tick_ok example_config example_valAddr False
      "NewMsgHeartbeat example_valAddr origin_heights_json (''signed '' @ origin_heights_json)"
      example_world "[tick_no_key, tick_ok]"]
  by (simp add: sendHeartbeat_tick_ok main_example_two_ticks)

section \<open>Errors returned by the heartbeat\<close>





section \<open>The configuration at startup\<close>

lemma readEnvConfig_fields:
  "SovereignRPC (fst (readEnvConfig getenv)) = getenv ''SOVEREIGN_RPC''"
  "SovereignGRPC (fst (readEnvConfig getenv)) = getenv ''SOVEREIGN_GRPC''"
  "SovereignChainID (fst (readEnvConfig getenv)) = getenv ''SOVEREIGN_CHAIN_ID''"
  "Config.ValAddr (fst (readEnvConfig getenv)) = getenv ''VAL_ADDR''"
  "RelayerKeyPath (fst (readEnvConfig getenv)) = getenv ''RELAYER_KEY_PATH''"
  "RelayerBin (fst (readEnvConfig getenv)) = getenv ''RELAYER_BIN''"
  by (simp_all add: readEnvConfig_def Let_def split: sum.splits)

lemma readEnvConfig_period_default:
  "ParseDuration (getenv ''HEARTBEAT_PERIOD'') = Inl perr \<Longrightarrow>
     HeartbeatPeriod (fst (readEnvConfig getenv)) = 30 * Second
     \<and> snd (readEnvConfig getenv) =
         [Log ''Invalid HEARTBEAT_PERIOD '%s', defaulting to 30s. Error: %v''
            [S (getenv ''HEARTBEAT_PERIOD''), E perr]]"
  by (simp add: readEnvConfig_def Let_def)

lemma validateConfig_None_iff:
  "validateConfig c = None \<longleftrightarrow>
     SovereignRPC c \<noteq> [] \<and> SovereignGRPC c \<noteq> [] \<and> SovereignChainID c \<noteq> []
     \<and> Config.ValAddr c \<noteq> [] \<and> RelayerKeyPath c \<noteq> [] \<and> RelayerBin c \<noteq> []"
  by (simp add: validateConfig_def)

lemma main_config_error:
  "validateConfig (fst (readEnvConfig (Getenv w))) = Some err \<Longrightarrow>
     main w dryRun ticks =
       (Exited 1, snd (readEnvConfig (Getenv w)) @ [Log ''Configuration error: %v'' [E err]])"
  by (cases "readEnvConfig (Getenv w)") (simp add: main_def)

lemma main_address_error:
  "validateConfig (fst (readEnvConfig (Getenv w))) = None \<Longrightarrow>
   ValAddressFromBech32 w (Getenv w ''VAL_ADDR'') = Inl err \<Longrightarrow>
     main w dryRun ticks =
       (Exited 1, snd (readEnvConfig (Getenv w)) @ [Log ''Invalid validator address: %v'' [E err]])"
  using readEnvConfig_fields(4) [of "Getenv w"]
  by (cases "readEnvConfig (Getenv w)") (simp add: main_def)

lemma main_starts:
  "validateConfig (fst (readEnvConfig (Getenv w))) = None \<Longrightarrow>
   ValAddressFromBech32 w (Getenv w ''VAL_ADDR'') = Inr valAddr \<Longrightarrow>
   0 < HeartbeatPeriod (fst (readEnvConfig (Getenv w))) \<Longrightarrow>
     main w dryRun [] =
       (Running,
        snd (readEnvConfig (Getenv w))
        @ [Log ''Starting duty agent for validator %s'' [S (Getenv w ''VAL_ADDR'')],
           Log ''Heartbeat period: %s'' [D (HeartbeatPeriod (fst (readEnvConfig (Getenv w))))]])"
  using readEnvConfig_fields(4) [of "Getenv w"]
  by (cases "readEnvConfig (Getenv w)") (simp add: main_def Let_def)

text \<open>
  Claim C3, as the code has it. When one of the six string settings is empty, \<^verbatim>\<open>main\<close>
  logs a configuration error and exits with status 1; it exits in the same way when the
  validator address does not decode. A heartbeat period that is absent or does not
  parse is not an error: it is logged and the period is 30 seconds. With the six
  settings non-empty, a validator address that decodes and a positive period, whatever
  else the settings hold, startup logs its two lines and the process enters its loop.
\<close>

theorem startup_configuration_errors:
  "((Getenv w ''SOVEREIGN_RPC'' = [] \<or> Getenv w ''SOVEREIGN_GRPC'' = []
      \<or> Getenv w ''SOVEREIGN_CHAIN_ID'' = [] \<or> Getenv w ''VAL_ADDR'' = []
      \<or> Getenv w ''RELAYER_KEY_PATH'' = [] \<or> Getenv w ''RELAYER_BIN'' = []) \<longrightarrow>
      (\<exists>err. main w dryRun ticks =
         (Exited 1, snd (readEnvConfig (Getenv w)) @ [Log ''Configuration error: %v'' [E err]])))
   \<and> (ValAddressFromBech32 w (Getenv w ''VAL_ADDR'') = Inl aerr \<longrightarrow>
        fst (main w dryRun ticks) = Exited 1)
   \<and> (ParseDuration (Getenv w ''HEARTBEAT_PERIOD'') = Inl perr \<longrightarrow>
        HeartbeatPeriod (fst (readEnvConfig (Getenv w))) = 30 * Second
        \<and> snd (readEnvConfig (Getenv w)) =
            [Log ''Invalid HEARTBEAT_PERIOD '%s', defaulting to 30s. Error: %v''
               [S (Getenv w ''HEARTBEAT_PERIOD''), E perr]])
   \<and> (Getenv w ''SOVEREIGN_RPC'' \<noteq> [] \<and> Getenv w ''SOVEREIGN_GRPC'' \<noteq> []
      \<and> Getenv w ''SOVEREIGN_CHAIN_ID'' \<noteq> [] \<and> Getenv w ''VAL_ADDR'' \<noteq> []
      \<and> Getenv w ''RELAYER_KEY_PATH'' \<noteq> [] \<and> Getenv w ''RELAYER_BIN'' \<noteq> []
      \<and> ValAddressFromBech32 w (Getenv w ''VAL_ADDR'') = Inr valAddr
      \<and> 0 < HeartbeatPeriod (fst (readEnvConfig (Getenv w))) \<longrightarrow>
        main w dryRun [] =
          (Running,
           snd (readEnvConfig (Getenv w))
           @ [Log ''Starting duty agent for validator %s'' [S (Getenv w ''VAL_ADDR'')],
              Log ''Heartbeat period: %s''
                [D (HeartbeatPeriod (fst (readEnvConfig (Getenv w))))]]))"
proof (intro conjI impI)
  assume "Getenv w ''SOVEREIGN_RPC'' = [] \<or> Getenv w ''SOVEREIGN_GRPC'' = []
      \<or> Getenv w ''SOVEREIGN_CHAIN_ID'' = [] \<or> Getenv w ''VAL_ADDR'' = []
      \<or> Getenv w ''RELAYER_KEY_PATH'' = [] \<or> Getenv w ''RELAYER_BIN'' = []"
  then have "validateConfig (fst (readEnvConfig (Getenv w))) \<noteq> None"
    by (auto simp: validateConfig_None_iff readEnvConfig_fields)
  then obtain err where "validateConfig (fst (readEnvConfig (Getenv w))) = Some err" by auto
  then show "\<exists>err. main w dryRun ticks =
      (Exited 1, snd (readEnvConfig (Getenv w)) @ [Log ''Configuration error: %v'' [E err]])"
    using main_config_error by blast
next
  assume a: "ValAddressFromBech32 w (Getenv w ''VAL_ADDR'') = Inl aerr"
  show "fst (main w dryRun ticks) = Exited 1"
  proof (cases "validateConfig (fst (readEnvConfig (Getenv w)))")
    case None
    with a show ?thesis by (simp add: main_address_error)
  next
    case (Some err)
    then show ?thesis by (simp add: main_config_error)
  qed
next
  assume "ParseDuration (Getenv w ''HEARTBEAT_PERIOD'') = Inl perr"
  then show "HeartbeatPeriod (fst (readEnvConfig (Getenv w))) = 30 * Second"
    and "snd (readEnvConfig (Getenv w)) =
            [Log ''Invalid HEARTBEAT_PERIOD '%s', defaulting to 30s. Error: %v''
               [S (Getenv w ''HEARTBEAT_PERIOD''), E perr]]"
    by (simp_all add: readEnvConfig_period_default)
next
  assume "Getenv w ''SOVEREIGN_RPC'' \<noteq> [] \<and> Getenv w ''SOVEREIGN_GRPC'' \<noteq> []
      \<and> Getenv w ''SOVEREIGN_CHAIN_ID'' \<noteq> [] \<and> Getenv w ''VAL_ADDR'' \<noteq> []
      \<and> Getenv w ''RELAYER_KEY_PATH'' \<noteq> [] \<and> Getenv w ''RELAYER_BIN'' \<noteq> []
      \<and> ValAddressFromBech32 w (Getenv w ''VAL_ADDR'') = Inr valAddr
      \<and> 0 < HeartbeatPeriod (fst (readEnvConfig (Getenv w)))"
  then show "main w dryRun [] =
          (Running,
           snd (readEnvConfig (Getenv w))
           @ [Log ''Starting duty agent for validator %s'' [S (Getenv w ''VAL_ADDR'')],
              Log ''Heartbeat period: %s''
                [D (HeartbeatPeriod (fst (readEnvConfig (Getenv w))))]])"
    by (intro main_starts [of w valAddr]) (simp_all add: validateConfig_None_iff readEnvConfig_fields)
qed

lemma ParseDuration_thirty: "ParseDuration ''thirty'' = Inl (invalid_duration ''thirty'')"
  by (simp add: ParseDuration_def parse_groups.simps [of _ _ "''thirty''"] parse_group_def
      in_number_def is_digit_def less_eq_char_def)

lemma readEnvConfig_thirty:
  "readEnvConfig (example_env(''HEARTBEAT_PERIOD'' := ''thirty'')) =
     (example_config,
      [Log ''Invalid HEARTBEAT_PERIOD '%s', defaulting to 30s. Error: %v''
         [S ''thirty'', E (invalid_duration ''thirty'')]])"
  by (simp add: readEnvConfig_def Let_def example_env_def example_config_def ParseDuration_thirty)

lemma readEnvConfig_malformed:
  "readEnvConfig malformed_env =
     (\<lparr>SovereignRPC = ''not an endpoint'', SovereignGRPC = ''::'', SovereignChainID = ''?'',
       Config.ValAddr = example_address, RelayerKeyPath = ''/no/such/file'',
       RelayerBin = ''/no/such/file'', HeartbeatPeriod = 30 * Second\<rparr>, [])"
  by (simp add: readEnvConfig_def Let_def malformed_env_def ParseDuration_30s)

theorem absent_heartbeat_period_is_not_fatal:
  "Getenv example_world ''HEARTBEAT_PERIOD'' = []
   \<and> main example_world False [] =
       (Running,
        [Log ''Invalid HEARTBEAT_PERIOD '%s', defaulting to 30s. Error: %v''
           [S [], E (Err (''time: invalid duration '' @ [CHR 0x22, CHR 0x22]))],
         Log ''Starting duty agent for validator %s'' [S example_address],
         Log ''Heartbeat period: %s'' [D (30 * Second)]])
   \<and> main (example_world\<lparr>Getenv := (Getenv example_world)(''HEARTBEAT_PERIOD'' := ''thirty'')\<rparr>)
        False [] =
       (Running,
        [Log ''Invalid HEARTBEAT_PERIOD '%s', defaulting to 30s. Error: %v''
           [S ''thirty'', E (invalid_duration ''thirty'')],
         Log ''Starting duty agent for validator %s'' [S example_address],
         Log ''Heartbeat period: %s'' [D (30 * Second)]])
   \<and> main (example_world\<lparr>Getenv := malformed_env\<rparr>) False [] =
       (Running,
        [Log ''Starting duty agent for validator %s'' [S example_address],
         Log ''Heartbeat period: %s'' [D (30 * Second)]])"
proof -
  have 1: "Getenv example_world ''HEARTBEAT_PERIOD'' = []"
    by (simp add: example_world_def example_env_def)
  have 3: "main (example_world\<lparr>Getenv := (Getenv example_world)(''HEARTBEAT_PERIOD'' := ''thirty'')\<rparr>)
        False [] =
       (Running,
        [Log ''Invalid HEARTBEAT_PERIOD '%s', defaulting to 30s. Error: %v''
           [S ''thirty'', E (invalid_duration ''thirty'')],
         Log ''Starting duty agent for validator %s'' [S example_address],
         Log ''Heartbeat period: %s'' [D (30 * Second)]])"
    by (simp add: main_def example_config_fields readEnvConfig_thirty)
  have 4: "main (example_world\<lparr>Getenv := malformed_env\<rparr>) False [] =
       (Running,
        [Log ''Starting duty agent for validator %s'' [S example_address],
         Log ''Heartbeat period: %s'' [D (30 * Second)]])"
  proof -
    have n: "example_address \<noteq> []" by (simp add: example_address_def)
    show ?thesis
      by (simp add: main_def readEnvConfig_malformed validateConfig_def example_config_fields n)
  qed
  from 1 3 4 show ?thesis by (simp add: main_example_start)
qed

theorem startup_configuration_errors_witness:
  "fst (main (example_world\<lparr>Getenv := (Getenv example_world)(''SOVEREIGN_RPC'' := [])\<rparr>)
          False [tick_ok]) = Exited 1
   \<and> fst (main (example_world\<lparr>Getenv := (Getenv example_world)(''VAL_ADDR'' := ''cosmosvaloper1...'')\<rparr>)
          False [tick_ok]) = Exited 1
   \<and> HeartbeatPeriod (fst (readEnvConfig (Getenv example_world))) = 30 * Second
   \<and> fst (main example_world False []) = Running"
proof -
  let ?w1 = "example_world\<lparr>Getenv := (Getenv example_world)(''SOVEREIGN_RPC'' := [])\<rparr>"
  let ?w2 = "example_world\<lparr>Getenv := (Getenv example_world)(''VAL_ADDR'' := ''cosmosvaloper1...'')\<rparr>"
  have g: "Getenv example_world = example_env" by (simp add: example_world_def)
  have p: "ParseDuration (Getenv example_world ''HEARTBEAT_PERIOD'')
     = Inl (Err (''time: invalid duration '' @ [CHR 0x22, CHR 0x22]))"
    by (simp add: g example_env_def ParseDuration_empty)
  have a2: "ValAddressFromBech32 ?w2 (Getenv ?w2 ''VAL_ADDR'') = Inl (Err ''decoding bech32 failed'')"
    by (simp add: example_world_def example_address_def)
  from startup_configuration_errors [of ?w1 False "[tick_ok]" "Err []" "Err []" "ValAddress []"]
  have 1: "fst (main ?w1 False [tick_ok]) = Exited 1" by auto
  from a2 startup_configuration_errors
    [of ?w2 False "[tick_ok]" "Err ''decoding bech32 failed''" "Err []" "ValAddress []"]
  have 2: "fst (main ?w2 False [tick_ok]) = Exited 1" by blast
  from p startup_configuration_errors [of example_world False "[]" "Err []"
      "Err (''time: invalid duration '' @ [CHR 0x22, CHR 0x22])" example_valAddr]
  have 3: "HeartbeatPeriod (fst (readEnvConfig (Getenv example_world))) = 30 * Second"
    and 4: "fst (main example_world False []) = Running"
    by (simp_all add: g example_env_def example_world_def Second_def example_address_def)
  from 1 2 3 4 show ?thesis by blast
qed

section \<open>The bytes to sign\<close>

lemma GetSignBytes_eq: "GetSignBytes cdc num m = map_option (MustSortJSON num) (cdc m)"
  by (cases m)
    (simp_all add: MsgRegisterSidecars_GetSignBytes_def MsgHeartbeat_GetSignBytes_def
      MsgReportMissed_GetSignBytes_def MsgReportInvalid_GetSignBytes_def)

text \<open>
  Claim C10. For each of the four message types, \<^verbatim>\<open>GetSignBytes\<close> is the codec's JSON
  document for the message passed through \<^verbatim>\<open>MustSortJSON\<close>. The bytes returned are
  those of a document in which every object has its members in strictly rising order
  of name, and they do not depend on the order in which the codec writes the members
  of an object: two codecs whose documents for a message differ only in that order
  give the same bytes. Equal messages give equal bytes.
\<close>

theorem GetSignBytes_sorted_and_order_free:
  "GetSignBytes cdc num m = map_option (MustSortJSON num) (cdc m)
   \<and> ((\<forall>xs. mset (p xs) = mset xs) \<and> cdc m = Some j \<and> distinct_keys j
        \<and> cdc' m = Some (reorder p j) \<longrightarrow>
        GetSignBytes cdc' num m = GetSignBytes cdc num m)
   \<and> (cdc m = Some j \<longrightarrow>
        (\<exists>j'. GetSignBytes cdc num m = Some (render j') \<and> keys_sorted j'))
   \<and> (m = m' \<longrightarrow> GetSignBytes cdc num m = GetSignBytes cdc num m')"
proof (intro conjI impI)
  show "GetSignBytes cdc num m = map_option (MustSortJSON num) (cdc m)"
    by (rule GetSignBytes_eq)
next
  assume a: "(\<forall>xs. mset (p xs) = mset xs) \<and> cdc m = Some j \<and> distinct_keys j
      \<and> cdc' m = Some (reorder p j)"
  then have "sortJSON num (reorder p j) = sortJSON num j"
    by (intro sortJSON_reorder) simp_all
  with a show "GetSignBytes cdc' num m = GetSignBytes cdc num m"
    by (simp add: GetSignBytes_eq MustSortJSON_def)
next
  assume "cdc m = Some j"
  then have "GetSignBytes cdc num m = Some (render (sortJSON num j))"
    by (simp add: GetSignBytes_eq MustSortJSON_def)
  then show "\<exists>j'. GetSignBytes cdc num m = Some (render j') \<and> keys_sorted j'"
    using keys_sorted_sortJSON by blast
next
  assume "m = m'"
  then show "GetSignBytes cdc num m = GetSignBytes cdc num m'" by simp
qed

lemma sorted_example:
  "sort_key fst [(''val_addr'', JString ''val''), (''origin_heights_json'', JString a), (''sig'', JString b)]
   = [(''origin_heights_json'', JString a), (''sig'', JString b), (''val_addr'', JString ''val'')]"
  by (simp add: less_eq_char_def less_char_def)

theorem GetSignBytes_sorted_and_order_free_witness:
  "GetSignBytes example_cdc_rev id (Heartbeat (NewMsgHeartbeat (ValAddress ''val'') ''{}'' ''sig''))
     = GetSignBytes example_cdc id (Heartbeat (NewMsgHeartbeat (ValAddress ''val'') ''{}'' ''sig''))
   \<and> GetSignBytes example_cdc id (Heartbeat (NewMsgHeartbeat (ValAddress ''val'') ''{}'' ''sig''))
     = Some (''{'' @ [CHR 0x22] @ ''origin_heights_json'' @ [CHR 0x22] @ '':'' @ [CHR 0x22] @ ''{}''
             @ [CHR 0x22] @ '','' @ [CHR 0x22] @ ''sig'' @ [CHR 0x22] @ '':'' @ [CHR 0x22] @ ''sig''
             @ [CHR 0x22] @ '','' @ [CHR 0x22] @ ''val_addr'' @ [CHR 0x22] @ '':'' @ [CHR 0x22]
             @ ''val'' @ [CHR 0x22] @ ''}'')"
proof -
  let ?m = "Heartbeat (NewMsgHeartbeat (ValAddress ''val'') ''{}'' ''sig'')"
  let ?j = "JObject [(''val_addr'', JString ''val''), (''origin_heights_json'', JString ''{}''),
                     (''sig'', JString ''sig'')]"
  have c: "example_cdc ?m = Some ?j" by (simp add: example_cdc_def NewMsgHeartbeat_def)
  have c': "example_cdc_rev ?m = Some (reorder rev ?j)" by (simp add: example_cdc_rev_def c)
  have d: "distinct_keys ?j" by simp
  have p: "\<forall>xs :: (string \<times> json) list. mset (rev xs) = mset xs" by simp
  note t = GetSignBytes_sorted_and_order_free [of example_cdc id ?m rev ?j example_cdc_rev ?m]
  from t c c' d p have 1: "GetSignBytes example_cdc_rev id ?m = GetSignBytes example_cdc id ?m"
    by blast
  from t have "GetSignBytes example_cdc id ?m = map_option (MustSortJSON id) (example_cdc ?m)"
    by blast
  then have 2: "GetSignBytes example_cdc id ?m =
      Some (''{'' @ [CHR 0x22] @ ''origin_heights_json'' @ [CHR 0x22] @ '':'' @ [CHR 0x22] @ ''{}''
             @ [CHR 0x22] @ '','' @ [CHR 0x22] @ ''sig'' @ [CHR 0x22] @ '':'' @ [CHR 0x22] @ ''sig''
             @ [CHR 0x22] @ '','' @ [CHR 0x22] @ ''val_addr'' @ [CHR 0x22] @ '':'' @ [CHR 0x22]
             @ ''val'' @ [CHR 0x22] @ ''}'')"
    by (simp add: c MustSortJSON_def sorted_example json_string_def escape_byte_def
        del: sort_key_simps)
  from 1 2 show ?thesis by blast
qed

end
